theory Spec2Isabelle
  imports Complex_Main
begin

section \<open>JavaScript values\<close>

text \<open>
  Request bodies, credentials, table contents and response bodies are JSON values. A number
  is a rational or one of the two infinities, which \<open>JSON.parse\<close> yields for a literal
  beyond the range of a double such as \<open>1e400\<close>; \<open>NaN\<close> does not arise from JSON, and
  the rounding of doubles is not modelled (the handlers never compute with numbers). An
  object is the list of its own properties in insertion order; \<open>JSON.parse\<close> yields
  distinct keys. A value of type \<open>json option\<close> is a JavaScript value that may be
  \<open>undefined\<close> (\<open>None\<close>). A string is the list of the UTF-8 bytes of the JavaScript
  string.
\<close>

datatype js_number = Finite rat | PlusInfinity | MinusInfinity

datatype json =
    JNull
  | JBool bool
  | JNum js_number
  | JStr string
  | JArr "json list"
  | JObj "(string \<times> json) list"

text \<open>
  A thrown value is either an instance of \<open>Error\<close> with its message, or anything else;
  the handlers' outer \<open>catch\<close> distinguishes exactly these two.
\<close>

datatype thrown = JsError string | NonError

text \<open>Truthiness, as \<open>!x\<close> and \<open>a && b\<close> test it.\<close>

fun js_truthy :: "json option \<Rightarrow> bool" where
  "js_truthy None = False"
| "js_truthy (Some JNull) = False"
| "js_truthy (Some (JBool b)) = b"
| "js_truthy (Some (JNum n)) = (n \<noteq> Finite 0)"
| "js_truthy (Some (JStr s)) = (s \<noteq> [])"
| "js_truthy (Some (JArr xs)) = True"
| "js_truthy (Some (JObj kvs)) = True"

text \<open>
  Reading a property \<open>v.k\<close>: a TypeError on \<open>undefined\<close> and \<open>null\<close>, the own property
  of an object, \<open>undefined\<close> on every other value (none of the property names read by the
  handlers is inherited from a prototype). The message is worded as V8 words it.
\<close>

definition cannot_read :: "string \<Rightarrow> string \<Rightarrow> thrown" where
  "cannot_read what k =
     JsError (''Cannot read properties of '' @ what @ '' (reading '' @ [CHR 0x27] @ k
              @ [CHR 0x27] @ '')'')"

fun js_get :: "json option \<Rightarrow> string \<Rightarrow> thrown + json option" where
  "js_get None k = Inl (cannot_read ''undefined'' k)"
| "js_get (Some JNull) k = Inl (cannot_read ''null'' k)"
| "js_get (Some (JObj kvs)) k = Inr (map_of kvs k)"
| "js_get (Some v) k = Inr None"

text \<open>
  An object literal \<open>{k1: v1, ...}\<close> as it is serialised: a property whose value is
  \<open>undefined\<close> is left out by \<open>JSON.stringify\<close>.
\<close>

fun obj_literal_props :: "(string \<times> json option) list \<Rightarrow> (string \<times> json) list" where
  "obj_literal_props [] = []"
| "obj_literal_props ((k, None) # ps) = obj_literal_props ps"
| "obj_literal_props ((k, Some v) # ps) = (k, v) # obj_literal_props ps"

definition obj_literal :: "(string \<times> json option) list \<Rightarrow> json" where
  "obj_literal ps = JObj (obj_literal_props ps)"

text \<open>
  The assignment \<open>obj[k] = v\<close> on an object created by \<open>{}\<close>: an existing property keeps
  its place, a new one is appended; the key \<open>__proto__\<close> reaches the prototype setter and
  creates no own property.
\<close>

fun obj_update :: "(string \<times> json) list \<Rightarrow> string \<Rightarrow> json \<Rightarrow> (string \<times> json) list" where
  "obj_update [] k v = [(k, v)]"
| "obj_update ((k', v') # ps) k v =
     (if k' = k then (k, v) # ps else (k', v') # obj_update ps k v)"

definition obj_set :: "(string \<times> json) list \<Rightarrow> string \<Rightarrow> json \<Rightarrow> (string \<times> json) list" where
  "obj_set ps k v = (if k = ''__proto__'' then ps else obj_update ps k v)"

text \<open>\<open>String.prototype.toLowerCase\<close> on the ASCII letters.\<close>

definition lower_char :: "char \<Rightarrow> char" where
  "lower_char c =
     (let n = (of_char c :: nat) in if 65 \<le> n \<and> n \<le> 90 then char_of (n + 32) else c)"

definition toLowerCase :: "string \<Rightarrow> string" where
  "toLowerCase s = map lower_char s"

section \<open>The collaborators\<close>

text \<open>
  The handlers talk to the request stream, the ClickHouse source, the Supabase store, the
  GitHub workflow API and an HTTP endpoint. Each call is logged as an event, and the
  answer of a collaborator is a function of the events so far and of the call's arguments:
  the same query may be answered differently the second time.
\<close>

record ch_config =
  cfg_url :: "json option"
  cfg_host :: "json option"
  cfg_username :: "json option"
  cfg_password :: "json option"
  cfg_database :: "json option"

record dispatch_request =
  gh_owner :: string
  gh_repo :: string
  gh_workflow_id :: string
  gh_ref :: string
  inputs_org_id :: string
  inputs_data :: string

datatype event =
    ReadBody
  | ChQuery ch_config string
  | DbInsert string json
  | DbDelete string "json option"
  | GhDispatch dispatch_request
  | HttpFetch string "string option"

text \<open>
  The store answers \<open>insert(...).select().single()\<close> and \<open>delete().eq(...)\<close> with a pair
  \<open>{data, error}\<close>: \<open>db_error\<close> is the message of the error when there is one,
  \<open>db_data\<close> the returned row when there is one.
\<close>

record db_result =
  db_error :: "string option"
  db_data :: "(string \<times> json) list option"

record fetch_response =
  fetch_ok :: bool
  fetch_statusText :: string

record auth_info =
  auth_userId :: "json option"
  auth_orgId :: "json option"
  auth_orgSlug :: "json option"

text \<open>
  \<open>gh_dispatch\<close> is \<open>octokit.request\<close>: \<open>None\<close> when the trigger was accepted,
  \<open>Some m\<close> when it rejected with a \<open>RequestError\<close> of message \<open>m\<close>.
  \<open>ch_client\<close> is the construction of the ClickHouse client, which may throw and sends
  nothing. \<open>json_stringify\<close> and \<open>number_to_string\<close> are the pure built-ins
  \<open>JSON.stringify\<close> and \<open>Number.prototype.toString\<close>. The construction of the
  Supabase client and the call of \<open>auth()\<close>, which stand before the \<open>try\<close> blocks of
  the handlers, are taken not to throw.
\<close>

record env =
  read_body :: "event list \<Rightarrow> thrown + json"
  ch_client :: "ch_config \<Rightarrow> thrown option"
  ch_show_tables :: "event list \<Rightarrow> ch_config \<Rightarrow> thrown + string list"
  ch_query :: "event list \<Rightarrow> ch_config \<Rightarrow> string \<Rightarrow> thrown + json"
  db_insert :: "event list \<Rightarrow> string \<Rightarrow> json \<Rightarrow> thrown + db_result"
  db_delete :: "event list \<Rightarrow> string \<Rightarrow> json option \<Rightarrow> thrown + db_result"
  gh_dispatch :: "event list \<Rightarrow> dispatch_request \<Rightarrow> string option"
  http_fetch :: "event list \<Rightarrow> string \<Rightarrow> string option \<Rightarrow> thrown + fetch_response"
  json_stringify :: "json \<Rightarrow> string"
  number_to_string :: "js_number \<Rightarrow> string"
  clerk_auth :: auth_info

record response =
  resp_status :: nat
  resp_body :: json

text \<open>
  A handler either returns a response or rejects: the thrown value leaves the handler
  unhandled.
\<close>

datatype outcome = Responded response | Rejected thrown

definition respond :: "nat \<Rightarrow> (string \<times> json option) list \<Rightarrow> outcome" where
  "respond st ps = Responded \<lparr>resp_status = st, resp_body = obj_literal ps\<rparr>"

section \<open>Request validation (part_002, \<open>requestSchema\<close>)\<close>

text \<open>
  A Zod issue is kept as its code and path; its other fields are not modelled. A schema maps
  the value at a path to the parsed value or to the issues raised.
\<close>

datatype issue = Issue string "string list"

fun issue_json :: "issue \<Rightarrow> json" where
  "issue_json (Issue c p) = JObj [(''code'', JStr c), (''path'', JArr (map JStr p))]"

definition issues_of :: "issue list + 'a \<Rightarrow> issue list" where
  "issues_of r = (case r of Inl is \<Rightarrow> is | Inr v \<Rightarrow> [])"

text \<open>\<open>z.string()\<close> and \<open>z.string().min(1)\<close>\<close>

fun z_string :: "string list \<Rightarrow> json option \<Rightarrow> issue list + string" where
  "z_string p (Some (JStr s)) = Inr s"
| "z_string p v = Inl [Issue ''invalid_type'' p]"

definition z_string_min1 :: "string list \<Rightarrow> json option \<Rightarrow> issue list + string" where
  "z_string_min1 p v =
     (case z_string p v of
        Inl is \<Rightarrow> Inl is
      | Inr s \<Rightarrow> if 1 \<le> length s then Inr s else Inl [Issue ''too_small'' p])"

text \<open>\<open>z.record(z.any())\<close>\<close>

fun z_record_any :: "string list \<Rightarrow> json option \<Rightarrow> issue list + (string \<times> json) list" where
  "z_record_any p (Some (JObj kvs)) = Inr kvs"
| "z_record_any p v = Inl [Issue ''invalid_type'' p]"

text \<open>\<open>z.enum(["stream", "batch"]).default("stream")\<close>\<close>

fun z_mode :: "string list \<Rightarrow> json option \<Rightarrow> issue list + string" where
  "z_mode p None = Inr ''stream''"
| "z_mode p (Some (JStr s)) =
     (if s \<in> set [''stream'', ''batch''] then Inr s else Inl [Issue ''invalid_enum_value'' p])"
| "z_mode p (Some v) = Inl [Issue ''invalid_type'' p]"

text \<open>
  \<open>z.number().default(10000)\<close>: every number passes, the infinities included; there is
  no further check on it.
\<close>

fun z_batchSize :: "string list \<Rightarrow> json option \<Rightarrow> issue list + js_number" where
  "z_batchSize p None = Inr (Finite 10000)"
| "z_batchSize p (Some (JNum n)) = Inr n"
| "z_batchSize p (Some v) = Inl [Issue ''invalid_type'' p]"

record sync_options =
  mode :: string
  batchSize :: js_number

text \<open>
  \<open>z.object({mode, batchSize}).default({mode: "stream", batchSize: 10000})\<close>: an
  \<open>undefined\<close> input is replaced by the default before the object schema parses it; the
  object schema is not strict and keeps the two known keys only.
\<close>

fun z_options_object :: "string list \<Rightarrow> json option \<Rightarrow> issue list + sync_options" where
  "z_options_object p (Some (JObj kvs)) =
     (let m = z_mode (p @ [''mode'']) (map_of kvs ''mode'');
          b = z_batchSize (p @ [''batchSize'']) (map_of kvs ''batchSize'')
      in if \<not> isl m \<and> \<not> isl b then Inr \<lparr>mode = projr m, batchSize = projr b\<rparr>
         else Inl (issues_of m @ issues_of b))"
| "z_options_object p v = Inl [Issue ''invalid_type'' p]"

definition options_default :: json where
  "options_default = JObj [(''mode'', JStr ''stream''), (''batchSize'', JNum (Finite 10000))]"

definition z_options :: "string list \<Rightarrow> json option \<Rightarrow> issue list + sync_options" where
  "z_options p v =
     z_options_object p (case v of None \<Rightarrow> Some options_default | Some x \<Rightarrow> Some x)"

record destination_config_t =
  dc_type :: string
  dc_credentials :: "(string \<times> json) list"
  dc_options :: sync_options

text \<open>The issue of a strict object for the keys outside its shape.\<close>

definition unrecognized_keys :: "string list \<Rightarrow> string list \<Rightarrow> (string \<times> json) list \<Rightarrow> issue list" where
  "unrecognized_keys p shape kvs =
     (if filter (\<lambda>k. k \<notin> set shape) (map fst kvs) \<noteq> [] then [Issue ''unrecognized_keys'' p]
      else [])"

text \<open>\<open>destinationConfigSchema\<close>\<close>

fun destinationConfigSchema :: "string list \<Rightarrow> json option \<Rightarrow> issue list + destination_config_t" where
  "destinationConfigSchema p (Some (JObj kvs)) =
     (let t = z_string (p @ [''type'']) (map_of kvs ''type'');
          c = z_record_any (p @ [''credentials'']) (map_of kvs ''credentials'');
          opts = z_options (p @ [''options'']) (map_of kvs ''options'');
          extra = unrecognized_keys p [''type'', ''credentials'', ''options''] kvs
      in if \<not> isl t \<and> \<not> isl c \<and> \<not> isl opts \<and> extra = []
         then Inr \<lparr>dc_type = projr t, dc_credentials = projr c, dc_options = projr opts\<rparr>
         else Inl (issues_of t @ issues_of c @ issues_of opts @ extra))"
| "destinationConfigSchema p v = Inl [Issue ''invalid_type'' p]"

record sync_request =
  organization :: string
  internal_warehouse :: string
  link_type :: string
  internal_credentials :: "(string \<times> json) list"
  destination_config :: destination_config_t

text \<open>\<open>requestSchema.safeParse(rawBody)\<close>\<close>

fun requestSchema_safeParse :: "json \<Rightarrow> issue list + sync_request" where
  "requestSchema_safeParse (JObj kvs) =
     (let org = z_string_min1 [''organization''] (map_of kvs ''organization'');
          wh = z_string_min1 [''internal_warehouse''] (map_of kvs ''internal_warehouse'');
          lt = z_string_min1 [''link_type''] (map_of kvs ''link_type'');
          cr = z_record_any [''internal_credentials''] (map_of kvs ''internal_credentials'');
          dc = destinationConfigSchema [''destination_config''] (map_of kvs ''destination_config'');
          extra = unrecognized_keys []
                    [''organization'', ''internal_warehouse'', ''link_type'',
                     ''internal_credentials'', ''destination_config''] kvs
      in if \<not> isl org \<and> \<not> isl wh \<and> \<not> isl lt \<and> \<not> isl cr \<and> \<not> isl dc \<and> extra = []
         then Inr \<lparr>organization = projr org, internal_warehouse = projr wh,
                   link_type = projr lt, internal_credentials = projr cr,
                   destination_config = projr dc\<rparr>
         else Inl (issues_of org @ issues_of wh @ issues_of lt @ issues_of cr @ issues_of dc
                   @ extra))"
| "requestSchema_safeParse v = Inl [Issue ''invalid_type'' []]"

text \<open>The validated values as the JSON handed to the store.\<close>

definition options_json :: "sync_options \<Rightarrow> json" where
  "options_json opts = JObj [(''mode'', JStr (mode opts)), (''batchSize'', JNum (batchSize opts))]"

definition destination_config_json :: "destination_config_t \<Rightarrow> json" where
  "destination_config_json dc =
     JObj [(''type'', JStr (dc_type dc)),
           (''credentials'', JObj (dc_credentials dc)),
           (''options'', options_json (dc_options dc))]"

section \<open>The sync handler (part_002, first document)\<close>

definition client_config :: "(string \<times> json) list \<Rightarrow> ch_config" where
  "client_config credentials =
     \<lparr>cfg_url = map_of credentials ''host'', cfg_host = None,
      cfg_username = map_of credentials ''username'',
      cfg_password = map_of credentials ''password'',
      cfg_database = map_of credentials ''database''\<rparr>"

text \<open>
  \<open>getAllTables(credentials)\<close>: the answer to \<open>SHOW TABLES\<close> is taken at its declared
  type \<open>ShowTablesResponse\<close>, as the list of the names in \<open>tables.data\<close>. The \<open>catch\<close>
  rethrows.
\<close>

definition getAllTables ::
  "env \<Rightarrow> (string \<times> json) list \<Rightarrow> event list \<Rightarrow> (thrown + string list) \<times> event list" where
  "getAllTables env credentials tr =
     (let cfg = client_config credentials in
      case ch_client env cfg of
        Some e \<Rightarrow> (Inl e, tr)
      | None \<Rightarrow> (ch_show_tables env tr cfg, tr @ [ChQuery cfg ''SHOW TABLES'']))"

definition select_query :: "string \<Rightarrow> string" where
  "select_query table =
     ''SELECT * FROM '' @ table @ '' FORMAT JSONCompactEachRowWithNamesAndTypes''"

text \<open>The loop of \<open>getTableData\<close> over the table names, filling \<open>allTableData\<close>.\<close>

fun fetch_tables ::
  "env \<Rightarrow> ch_config \<Rightarrow> string list \<Rightarrow> (string \<times> json) list \<Rightarrow> event list
   \<Rightarrow> (thrown + (string \<times> json) list) \<times> event list" where
  "fetch_tables env cfg [] allTableData tr = (Inr allTableData, tr)"
| "fetch_tables env cfg (table # tables) allTableData tr =
     (case ch_query env tr cfg (select_query table) of
        Inl e \<Rightarrow> (Inl e, tr @ [ChQuery cfg (select_query table)])
      | Inr tableData \<Rightarrow>
          fetch_tables env cfg tables (obj_set allTableData table tableData)
            (tr @ [ChQuery cfg (select_query table)]))"

definition getTableData ::
  "env \<Rightarrow> (string \<times> json) list \<Rightarrow> event list
   \<Rightarrow> (thrown + (string \<times> json) list) \<times> event list" where
  "getTableData env credentials tr =
     (let cfg = client_config credentials in
      case ch_client env cfg of
        Some e \<Rightarrow> (Inl e, tr)
      | None \<Rightarrow>
          (case getAllTables env credentials tr of
             (Inl e, tr1) \<Rightarrow> (Inl e, tr1)
           | (Inr tables, tr1) \<Rightarrow> fetch_tables env cfg tables [] tr1))"

text \<open>The outer \<open>catch\<close> of the handlers, with the current value of \<open>syncId\<close>.\<close>

definition etl_failed :: "thrown \<Rightarrow> json option \<Rightarrow> outcome" where
  "etl_failed e syncId =
     respond 500
       [(''success'', Some (JBool False)),
        (''syncId'', syncId),
        (''error'', Some (JStr (case e of JsError m \<Rightarrow> m
                                | NonError \<Rightarrow> ''Unknown error occurred'')))]"

definition validation_failed :: "issue list \<Rightarrow> outcome" where
  "validation_failed issues =
     respond 400
       [(''success'', Some (JBool False)),
        (''error'', Some (JStr ''Validation failed'')),
        (''details'', Some (JArr (map issue_json issues)))]"

definition database_error :: "string \<Rightarrow> outcome" where
  "database_error m =
     respond 500
       [(''success'', Some (JBool False)),
        (''error'', Some (JStr ''Database error'')),
        (''details'', Some (JStr m))]"

definition no_data_returned :: outcome where
  "no_data_returned =
     respond 500
       [(''success'', Some (JBool False)),
        (''error'', Some (JStr ''Failed to create sync record: No data returned''))]"

definition github_api_error :: "json option \<Rightarrow> string \<Rightarrow> outcome" where
  "github_api_error syncId m =
     respond 422
       [(''success'', Some (JBool False)),
        (''syncId'', syncId),
        (''error'', Some (JStr ''GitHub API error'')),
        (''details'', Some (JStr m))]"

definition initiated :: "json option \<Rightarrow> outcome" where
  "initiated syncId =
     respond 200
       [(''success'', Some (JBool True)),
        (''syncId'', syncId),
        (''message'',
           Some (JStr ''ETL process and container provisioning initiated successfully''))]"

text \<open>The row handed to \<open>supabase.from('syncs').insert\<close>.\<close>

definition sync_row :: "sync_request \<Rightarrow> json" where
  "sync_row b =
     JObj [(''organization'', JStr (organization b)),
           (''internal_warehouse'', JStr (internal_warehouse b)),
           (''link_type'', JStr (toLowerCase (link_type b))),
           (''internal_credentials'', JObj (internal_credentials b)),
           (''destination_config'', destination_config_json (destination_config b))]"

definition bulker_dispatch :: "env \<Rightarrow> string \<Rightarrow> (string \<times> json) list \<Rightarrow> dispatch_request" where
  "bulker_dispatch env org snapshot =
     \<lparr>gh_owner = ''portcullis-co'', gh_repo = ''portcullis-app'',
      gh_workflow_id = ''deploy-bulker.yml'', gh_ref = ''bulker'',
      inputs_org_id = org, inputs_data = json_stringify env (JObj snapshot)\<rparr>"

text \<open>\<open>POST\<close>, from the events \<open>tr\<close> that precede the request.\<close>

definition POST_sync :: "env \<Rightarrow> event list \<Rightarrow> outcome \<times> event list" where
  "POST_sync env tr =
     (case read_body env tr of
        Inl e \<Rightarrow> (etl_failed e (Some JNull), tr @ [ReadBody])
      | Inr rawBody \<Rightarrow>
     (case requestSchema_safeParse rawBody of
        Inl issues \<Rightarrow> (validation_failed issues, tr @ [ReadBody])
      | Inr b \<Rightarrow>
     (case getTableData env (internal_credentials b) (tr @ [ReadBody]) of
        (Inl e, tr1) \<Rightarrow> (etl_failed e (Some JNull), tr1)
      | (Inr snapshot, tr1) \<Rightarrow>
     (case getAllTables env (internal_credentials b) tr1 of
        (Inl e, tr2) \<Rightarrow> (etl_failed e (Some JNull), tr2)
      | (Inr tables, tr2) \<Rightarrow>
     (case db_insert env tr2 ''syncs'' (sync_row b) of
        Inl e \<Rightarrow> (etl_failed e (Some JNull), tr2 @ [DbInsert ''syncs'' (sync_row b)])
      | Inr res \<Rightarrow>
     (case db_error res of
        Some m \<Rightarrow> (database_error m, tr2 @ [DbInsert ''syncs'' (sync_row b)])
      | None \<Rightarrow>
     (case db_data res of
        None \<Rightarrow> (no_data_returned, tr2 @ [DbInsert ''syncs'' (sync_row b)])
      | Some syncData \<Rightarrow>
     (let syncId = map_of syncData ''id'';
          req = bulker_dispatch env (organization b) snapshot;
          tr3 = tr2 @ [DbInsert ''syncs'' (sync_row b)]
      in case gh_dispatch env tr3 req of
           Some m \<Rightarrow> (github_api_error syncId m, tr3 @ [GhDispatch req])
         | None \<Rightarrow> (initiated syncId, tr3 @ [GhDispatch req])))))))))"

section \<open>The second sync handler (part_002, second document)\<close>

text \<open>
  Here \<open>getAllTables\<close> and \<open>getTableData\<close> take the request and read its body
  themselves; the client is configured from the unvalidated body.
\<close>

definition request_config :: "json \<Rightarrow> thrown + ch_config" where
  "request_config b =
     (case js_get (Some b) ''internal_credentials'' of
        Inl e \<Rightarrow> Inl e
      | Inr ic \<Rightarrow>
     (case js_get ic ''host'' of
        Inl e \<Rightarrow> Inl e
      | Inr h \<Rightarrow>
     (case js_get ic ''username'' of
        Inl e \<Rightarrow> Inl e
      | Inr u \<Rightarrow>
     (case js_get ic ''password'' of
        Inl e \<Rightarrow> Inl e
      | Inr pw \<Rightarrow>
     (case js_get ic ''database'' of
        Inl e \<Rightarrow> Inl e
      | Inr d \<Rightarrow>
          Inr \<lparr>cfg_url = None, cfg_host = h, cfg_username = u, cfg_password = pw,
               cfg_database = d\<rparr>)))))"

definition request_client :: "env \<Rightarrow> json \<Rightarrow> thrown + ch_config" where
  "request_client env b =
     (case request_config b of
        Inl e \<Rightarrow> Inl e
      | Inr cfg \<Rightarrow> (case ch_client env cfg of Some e \<Rightarrow> Inl e | None \<Rightarrow> Inr cfg))"

definition getAllTables_request ::
  "env \<Rightarrow> event list \<Rightarrow> (thrown + string list) \<times> event list" where
  "getAllTables_request env tr =
     (case read_body env tr of
        Inl e \<Rightarrow> (Inl e, tr @ [ReadBody])
      | Inr b \<Rightarrow>
     (case request_client env b of
        Inl e \<Rightarrow> (Inl e, tr @ [ReadBody])
      | Inr cfg \<Rightarrow>
          (ch_show_tables env (tr @ [ReadBody]) cfg,
           tr @ [ReadBody, ChQuery cfg ''SHOW TABLES''])))"

definition getTableData_request ::
  "env \<Rightarrow> event list \<Rightarrow> (thrown + (string \<times> json) list) \<times> event list" where
  "getTableData_request env tr =
     (case read_body env tr of
        Inl e \<Rightarrow> (Inl e, tr @ [ReadBody])
      | Inr b \<Rightarrow>
     (case request_client env b of
        Inl e \<Rightarrow> (Inl e, tr @ [ReadBody])
      | Inr cfg \<Rightarrow>
     (case getAllTables_request env (tr @ [ReadBody]) of
        (Inl e, tr1) \<Rightarrow> (Inl e, tr1)
      | (Inr tables, tr1) \<Rightarrow> fetch_tables env cfg tables [] tr1)))"

text \<open>
  \<open>POST\<close>: the snapshot is awaited before the \<open>try\<close> block is entered; a failed read of
  the body inside the block is replaced by the error \<open>Invalid JSON in request body\<close>.
\<close>

definition POST_sync2 :: "env \<Rightarrow> event list \<Rightarrow> outcome \<times> event list" where
  "POST_sync2 env tr =
     (case getTableData_request env tr of
        (Inl e, tr1) \<Rightarrow> (Rejected e, tr1)
      | (Inr snapshot, tr1) \<Rightarrow>
     (case read_body env tr1 of
        Inl e \<Rightarrow>
          (etl_failed (JsError ''Invalid JSON in request body'') (Some JNull), tr1 @ [ReadBody])
      | Inr rawBody \<Rightarrow>
     (case requestSchema_safeParse rawBody of
        Inl issues \<Rightarrow> (validation_failed issues, tr1 @ [ReadBody])
      | Inr b \<Rightarrow>
     (case db_insert env (tr1 @ [ReadBody]) ''syncs'' (sync_row b) of
        Inl e \<Rightarrow>
          (etl_failed e (Some JNull), tr1 @ [ReadBody, DbInsert ''syncs'' (sync_row b)])
      | Inr res \<Rightarrow>
     (case db_error res of
        Some m \<Rightarrow> (database_error m, tr1 @ [ReadBody, DbInsert ''syncs'' (sync_row b)])
      | None \<Rightarrow>
     (case db_data res of
        None \<Rightarrow> (no_data_returned, tr1 @ [ReadBody, DbInsert ''syncs'' (sync_row b)])
      | Some syncData \<Rightarrow>
     (let syncId = map_of syncData ''id'' in
      case getAllTables_request env (tr1 @ [ReadBody, DbInsert ''syncs'' (sync_row b)]) of
        (Inl e, tr2) \<Rightarrow> (etl_failed e syncId, tr2)
      | (Inr tables, tr2) \<Rightarrow>
     (let req = bulker_dispatch env (organization b) snapshot in
      case gh_dispatch env tr2 req of
        Some m \<Rightarrow> (github_api_error syncId m, tr2 @ [GhDispatch req])
      | None \<Rightarrow> (initiated syncId, tr2 @ [GhDispatch req])))))))))"

section \<open>The ETL handler (part_003)\<close>

text \<open>The method call \<open>v.toLowerCase()\<close> on an arbitrary value.\<close>

fun call_toLowerCase :: "json option \<Rightarrow> thrown + string" where
  "call_toLowerCase None = Inl (cannot_read ''undefined'' ''toLowerCase'')"
| "call_toLowerCase (Some JNull) = Inl (cannot_read ''null'' ''toLowerCase'')"
| "call_toLowerCase (Some (JStr s)) = Inr (toLowerCase s)"
| "call_toLowerCase (Some v) = Inl (JsError ''body.link_type.toLowerCase is not a function'')"

text \<open>
  A property of the body read after \<open>body.link_type\<close> was: the body is neither
  \<open>null\<close> nor \<open>undefined\<close> there, and the read does not throw.
\<close>

definition body_prop :: "json \<Rightarrow> string \<Rightarrow> json option" where
  "body_prop b k = (case js_get (Some b) k of Inl e \<Rightarrow> None | Inr v \<Rightarrow> v)"

text \<open>The row handed to the store: \<open>link_type\<close> is the body's own.\<close>

definition etl_row :: "json \<Rightarrow> json" where
  "etl_row b =
     obj_literal
       [(''organization'', body_prop b ''organization''),
        (''internal_warehouse'', body_prop b ''internal_warehouse''),
        (''link_type'', body_prop b ''link_type''),
        (''internal_credentials'', body_prop b ''internal_credentials''),
        (''destination_config'', body_prop b ''destinationConfig''),
        (''status'', Some (JStr ''active''))]"

definition bulker_url :: string where
  "bulker_url =
     ''https://api.github.com/repos/portcullis-co/portcullis-app/actions/workflows/11474765079/dispatches''"

definition completed :: "json option \<Rightarrow> outcome" where
  "completed syncId =
     respond 200
       [(''success'', Some (JBool True)),
        (''syncId'', syncId),
        (''message'',
           Some (JStr ''ETL process and container provisioning completed successfully''))]"

definition POST_etl :: "env \<Rightarrow> event list \<Rightarrow> outcome \<times> event list" where
  "POST_etl env tr =
     (case read_body env tr of
        Inl e \<Rightarrow> (etl_failed e (Some JNull), tr @ [ReadBody])
      | Inr b \<Rightarrow>
     (case js_get (Some b) ''link_type'' of
        Inl e \<Rightarrow> (etl_failed e (Some JNull), tr @ [ReadBody])
      | Inr lt \<Rightarrow>
     (case call_toLowerCase lt of
        Inl e \<Rightarrow> (etl_failed e (Some JNull), tr @ [ReadBody])
      | Inr linkType \<Rightarrow>
     (case db_insert env (tr @ [ReadBody]) ''syncs'' (etl_row b) of
        Inl e \<Rightarrow> (etl_failed e (Some JNull), tr @ [ReadBody, DbInsert ''syncs'' (etl_row b)])
      | Inr res \<Rightarrow>
     (case db_error res of
        Some m \<Rightarrow>
          (etl_failed (JsError (''Failed to create sync record: '' @ m)) (Some JNull),
           tr @ [ReadBody, DbInsert ''syncs'' (etl_row b)])
      | None \<Rightarrow>
     (case db_data res of
        None \<Rightarrow>
          (etl_failed (cannot_read ''null'' ''id'') (Some JNull),
           tr @ [ReadBody, DbInsert ''syncs'' (etl_row b)])
      | Some syncData \<Rightarrow>
     (let syncId = map_of syncData ''id'';
          payload = map_option (json_stringify env) (body_prop b ''destinationConfig'');
          tr1 = tr @ [ReadBody, DbInsert ''syncs'' (etl_row b)]
      in case http_fetch env tr1 bulker_url payload of
           Inl e \<Rightarrow> (etl_failed e syncId, tr1 @ [HttpFetch bulker_url payload])
         | Inr provisionBulker \<Rightarrow>
             if \<not> fetch_ok provisionBulker
             then (etl_failed
                     (JsError (''Failed to send data to Bulker: ''
                               @ fetch_statusText provisionBulker)) syncId,
                   tr1 @ [HttpFetch bulker_url payload])
             else (completed syncId, tr1 @ [HttpFetch bulker_url payload]))))))))"

section \<open>The sources route (part_001)\<close>

text \<open>
  The table \<open>requiredFields\<close> of \<open>validateCredentials\<close>. It is an object literal, so
  besides its four own keys a lookup also finds the names it inherits from
  \<open>Object.prototype\<close>, whose values are truthy and have no method \<open>every\<close>.
\<close>

definition requiredFields :: "(string \<times> string list) list" where
  "requiredFields =
     [(''snowflake'',
         [''account'', ''username'', ''password'', ''warehouse'', ''database'', ''schema'']),
      (''bigquery'', [''project_id'', ''private_key'', ''client_email'']),
      (''redshift'', [''host'', ''port'', ''database'', ''user'', ''password'']),
      (''clickhouse'', [''host'', ''port'', ''database'', ''user'', ''password''])]"

definition object_prototype_names :: "string list" where
  "object_prototype_names =
     [''constructor'', ''__defineGetter__'', ''__defineSetter__'', ''hasOwnProperty'',
      ''__lookupGetter__'', ''__lookupSetter__'', ''isPrototypeOf'',
      ''propertyIsEnumerable'', ''toString'', ''valueOf'', ''__proto__'',
      ''toLocaleString'']"

text \<open>
  \<open>String.prototype.trim\<close> removes the white space and the line terminators of
  ECMAScript from both ends: U+0009 to U+000D, U+0020, U+00A0, U+1680, U+2000 to U+200A,
  U+2028, U+2029, U+202F, U+205F, U+3000 and U+FEFF, here in their UTF-8 encodings.
\<close>

definition space_encodings :: "nat list list" where
  "space_encodings =
     [[0x09], [0x0A], [0x0B], [0x0C], [0x0D], [0x20],
      [0xC2, 0xA0],
      [0xE1, 0x9A, 0x80],
      [0xE2, 0x80, 0x80], [0xE2, 0x80, 0x81], [0xE2, 0x80, 0x82], [0xE2, 0x80, 0x83],
      [0xE2, 0x80, 0x84], [0xE2, 0x80, 0x85], [0xE2, 0x80, 0x86], [0xE2, 0x80, 0x87],
      [0xE2, 0x80, 0x88], [0xE2, 0x80, 0x89], [0xE2, 0x80, 0x8A],
      [0xE2, 0x80, 0xA8], [0xE2, 0x80, 0xA9], [0xE2, 0x80, 0xAF],
      [0xE2, 0x81, 0x9F],
      [0xE3, 0x80, 0x80],
      [0xEF, 0xBB, 0xBF]]"

text \<open>The number of bytes of the encoding that starts the string; 0 when none does.\<close>

definition leading :: "nat list list \<Rightarrow> string \<Rightarrow> nat" where
  "leading encs s =
     (case filter (\<lambda>w. w \<noteq> [] \<and> take (length w) (map of_char s) = w) encs of
        [] \<Rightarrow> 0
      | w # ws \<Rightarrow> length w)"

function strip_leading :: "nat list list \<Rightarrow> string \<Rightarrow> string" where
  "strip_leading encs s =
     (if leading encs s = 0 then s else strip_leading encs (drop (leading encs s) s))"
  by pat_completeness auto
termination
proof (relation "measure (\<lambda>(encs, s). length s)")
  show "wf (measure (\<lambda>(encs, s). length s))" by simp
next
  fix encs :: "nat list list" and s :: string
  assume a: "leading encs s \<noteq> 0"
  have "s \<noteq> []"
  proof
    assume "s = []"
    then have "filter (\<lambda>w. w \<noteq> [] \<and> take (length w) (map of_char s) = w) encs = []"
      by (auto simp add: filter_empty_conv)
    with a show False by (simp add: leading_def)
  qed
  with a show "((encs, drop (leading encs s) s), (encs, s)) \<in> measure (\<lambda>(encs, s). length s)"
    by simp
qed

definition js_trim :: "string \<Rightarrow> string" where
  "js_trim s =
     rev (strip_leading (map rev space_encodings) (rev (strip_leading space_encodings s)))"

text \<open>
  \<open>fields.every(field => credentials[field] && credentials[field].trim() !== '')\<close>:
  it stops at the first field whose test is falsy; a truthy value that is not a string has
  no method \<open>trim\<close>.
\<close>

fun every_field :: "json option \<Rightarrow> string list \<Rightarrow> thrown + bool" where
  "every_field credentials [] = Inr True"
| "every_field credentials (field # rest) =
     (case js_get credentials field of
        Inl e \<Rightarrow> Inl e
      | Inr v \<Rightarrow>
          if \<not> js_truthy v then Inr False
          else (case v of
                  Some (JStr s) \<Rightarrow>
                    if js_trim s \<noteq> [] then every_field credentials rest else Inr False
                | _ \<Rightarrow> Inl (JsError ''credentials[field].trim is not a function'')))"

definition validateCredentials :: "string \<Rightarrow> json option \<Rightarrow> thrown + bool" where
  "validateCredentials t credentials =
     (case map_of requiredFields t of
        Some required \<Rightarrow> every_field credentials required
      | None \<Rightarrow>
          if t \<in> set object_prototype_names
          then Inl (JsError ''fields.every is not a function'')
          else Inr False)"

text \<open>
  The property key a value is coerced to, where \<open>requiredFields[type]\<close> is read with a
  \<open>type\<close> that is not a string: \<open>ToString\<close>, an array joining its elements with commas.
\<close>

fun js_to_string :: "(js_number \<Rightarrow> string) \<Rightarrow> json \<Rightarrow> string"
  and js_join :: "(js_number \<Rightarrow> string) \<Rightarrow> json list \<Rightarrow> string"
  and js_element :: "(js_number \<Rightarrow> string) \<Rightarrow> json \<Rightarrow> string" where
  "js_to_string ns JNull = ''null''"
| "js_to_string ns (JBool b) = (if b then ''true'' else ''false'')"
| "js_to_string ns (JNum n) = ns n"
| "js_to_string ns (JStr s) = s"
| "js_to_string ns (JArr xs) = js_join ns xs"
| "js_to_string ns (JObj kvs) = ''[object Object]''"
| "js_join ns [] = []"
| "js_join ns [x] = js_element ns x"
| "js_join ns (x # y # ys) = js_element ns x @ '','' @ js_join ns (y # ys)"
| "js_element ns JNull = []"
| "js_element ns (JBool b) = js_to_string ns (JBool b)"
| "js_element ns (JNum n) = js_to_string ns (JNum n)"
| "js_element ns (JStr s) = js_to_string ns (JStr s)"
| "js_element ns (JArr xs) = js_to_string ns (JArr xs)"
| "js_element ns (JObj kvs) = js_to_string ns (JObj kvs)"

definition to_property_key :: "(js_number \<Rightarrow> string) \<Rightarrow> json option \<Rightarrow> string" where
  "to_property_key ns v = (case v of None \<Rightarrow> ''undefined'' | Some x \<Rightarrow> js_to_string ns x)"

definition source_error :: "nat \<Rightarrow> string \<Rightarrow> outcome" where
  "source_error st m = respond st [(''error'', Some (JStr m))]"

text \<open>
  The destructuring \<open>const {k} = v\<close>: it throws on \<open>null\<close> and reads the property
  otherwise.
\<close>

definition cannot_destructure :: "string \<Rightarrow> thrown" where
  "cannot_destructure k =
     JsError (''Cannot destructure property '' @ [CHR 0x27] @ k @ [CHR 0x27]
              @ '' of '' @ [CHR 0x27] @ ''(intermediate value)'' @ [CHR 0x27]
              @ '' as it is null.'')"

fun js_destructure :: "json \<Rightarrow> string \<Rightarrow> thrown + json option" where
  "js_destructure JNull k = Inl (cannot_destructure k)"
| "js_destructure v k = js_get (Some v) k"

definition source_row :: "env \<Rightarrow> json option \<Rightarrow> json option \<Rightarrow> json" where
  "source_row env t credentials =
     obj_literal
       [(''type'', t), (''credentials'', credentials),
        (''organization'', auth_orgId (clerk_auth env)),
        (''slug'', auth_orgSlug (clerk_auth env))]"

text \<open>\<open>POST\<close> of the sources route.\<close>

definition POST_sources :: "env \<Rightarrow> event list \<Rightarrow> outcome \<times> event list" where
  "POST_sources env tr =
     (if \<not> js_truthy (auth_userId (clerk_auth env)) \<or> \<not> js_truthy (auth_orgId (clerk_auth env))
      then (source_error 401 ''Unauthorized'', tr)
      else
     (case read_body env tr of
        Inl e \<Rightarrow> (source_error 500 ''An unexpected error occurred'', tr @ [ReadBody])
      | Inr b \<Rightarrow>
     (case js_destructure b ''type'' of
        Inl e \<Rightarrow> (source_error 500 ''An unexpected error occurred'', tr @ [ReadBody])
      | Inr t \<Rightarrow>
     (case js_destructure b ''credentials'' of
        Inl e \<Rightarrow> (source_error 500 ''An unexpected error occurred'', tr @ [ReadBody])
      | Inr credentials \<Rightarrow>
          if \<not> js_truthy t \<or> \<not> js_truthy credentials
          then (source_error 400 ''Type and credentials are required'', tr @ [ReadBody])
          else
     (case validateCredentials (to_property_key (number_to_string env) t) credentials of
        Inl e \<Rightarrow> (source_error 500 ''An unexpected error occurred'', tr @ [ReadBody])
      | Inr ok \<Rightarrow>
          if \<not> ok
          then (source_error 400 ''Invalid credentials for the selected type'', tr @ [ReadBody])
          else
     (case db_insert env (tr @ [ReadBody]) ''sources'' (source_row env t credentials) of
        Inl e \<Rightarrow>
          (source_error 500 ''An unexpected error occurred'',
           tr @ [ReadBody, DbInsert ''sources'' (source_row env t credentials)])
      | Inr res \<Rightarrow>
     (case db_error res of
        Some m \<Rightarrow>
          (source_error 500 ''Failed to insert source'',
           tr @ [ReadBody, DbInsert ''sources'' (source_row env t credentials)])
      | None \<Rightarrow>
          (respond 200
             [(''data'', Some (case db_data res of None \<Rightarrow> JNull | Some row \<Rightarrow> JObj row))],
           tr @ [ReadBody, DbInsert ''sources'' (source_row env t credentials)]))))))))"

text \<open>\<open>DELETE\<close> of the sources route: nothing in it is inside a \<open>try\<close>.\<close>

definition DELETE_sources :: "env \<Rightarrow> event list \<Rightarrow> outcome \<times> event list" where
  "DELETE_sources env tr =
     (case read_body env tr of
        Inl e \<Rightarrow> (Rejected e, tr @ [ReadBody])
      | Inr b \<Rightarrow>
     (case js_destructure b ''id'' of
        Inl e \<Rightarrow> (Rejected e, tr @ [ReadBody])
      | Inr ident \<Rightarrow>
     (case db_delete env (tr @ [ReadBody]) ''sources'' ident of
        Inl e \<Rightarrow> (Rejected e, tr @ [ReadBody, DbDelete ''sources'' ident])
      | Inr res \<Rightarrow>
     (case db_error res of
        Some m \<Rightarrow> (source_error 500 m, tr @ [ReadBody, DbDelete ''sources'' ident])
      | None \<Rightarrow>
          (respond 200 [(''success'', Some (JBool True))],
           tr @ [ReadBody, DbDelete ''sources'' ident])))))"

section \<open>Observations and example collaborators\<close>

text \<open>The events a handler adds to the events \<open>tr\<close> it started from.\<close>

definition new_events :: "event list \<Rightarrow> outcome \<times> event list \<Rightarrow> event list" where
  "new_events tr r = drop (length tr) (snd r)"

fun is_query :: "event \<Rightarrow> bool" where
  "is_query (ChQuery cfg q) = True"
| "is_query e = False"

text \<open>The value at a path of property names inside a JSON value.\<close>

fun json_at :: "string list \<Rightarrow> json \<Rightarrow> json option" where
  "json_at [] j = Some j"
| "json_at (k # ks) (JObj kvs) = (case map_of kvs k of None \<Rightarrow> None | Some v \<Rightarrow> json_at ks v)"
| "json_at (k # ks) j = None"

text \<open>The JSON value with the value at a path replaced, when the path exists.\<close>

fun json_put :: "string list \<Rightarrow> json \<Rightarrow> json \<Rightarrow> json"
  and json_put_props ::
    "string \<Rightarrow> string list \<Rightarrow> json \<Rightarrow> (string \<times> json) list \<Rightarrow> (string \<times> json) list" where
  "json_put [] new j = new"
| "json_put (k # ks) new (JObj kvs) = JObj (json_put_props k ks new kvs)"
| "json_put (k # ks) new JNull = JNull"
| "json_put (k # ks) new (JBool b) = JBool b"
| "json_put (k # ks) new (JNum n) = JNum n"
| "json_put (k # ks) new (JStr s) = JStr s"
| "json_put (k # ks) new (JArr xs) = JArr xs"
| "json_put_props k ks new [] = []"
| "json_put_props k ks new ((k', v) # ps) =
     (if k' = k then (k', json_put ks new v) else (k', v)) # json_put_props k ks new ps"

text \<open>
  A serialiser for the examples: strings are written without escapes and every number as
  \<open>0\<close>; the examples serialise neither.
\<close>

fun sample_stringify :: "json \<Rightarrow> string"
  and sample_elements :: "json list \<Rightarrow> string"
  and sample_props :: "(string \<times> json) list \<Rightarrow> string" where
  "sample_stringify JNull = ''null''"
| "sample_stringify (JBool b) = (if b then ''true'' else ''false'')"
| "sample_stringify (JNum n) = ''0''"
| "sample_stringify (JStr s) = ''\"'' @ s @ ''\"''"
| "sample_stringify (JArr xs) = ''['' @ sample_elements xs @ '']''"
| "sample_stringify (JObj kvs) = ''{'' @ sample_props kvs @ ''}''"
| "sample_elements [] = []"
| "sample_elements [x] = sample_stringify x"
| "sample_elements (x # y # ys) = sample_stringify x @ '','' @ sample_elements (y # ys)"
| "sample_props [] = []"
| "sample_props [(k, v)] = ''\"'' @ k @ ''\":'' @ sample_stringify v"
| "sample_props ((k, v) # p # ps) =
     ''\"'' @ k @ ''\":'' @ sample_stringify v @ '','' @ sample_props (p # ps)"

text \<open>
  Collaborators that answer every call the same way: the body read, the answer to
  \<open>SHOW TABLES\<close>, the answer to a \<open>SELECT\<close>, the answer of the store to an insert and
  the answer of the workflow API are parameters; the HTTP endpoint refuses.
\<close>

definition sample_env ::
  "(event list \<Rightarrow> thrown + json) \<Rightarrow> (thrown + string list) \<Rightarrow> (thrown + json)
   \<Rightarrow> (thrown + db_result) \<Rightarrow> string option \<Rightarrow> env" where
  "sample_env rd tables rows ins disp =
     \<lparr>read_body = rd,
      ch_client = (\<lambda>cfg. None),
      ch_show_tables = (\<lambda>tr cfg. tables),
      ch_query = (\<lambda>tr cfg q. rows),
      db_insert = (\<lambda>tr t row. ins),
      db_delete = (\<lambda>tr t i. Inr \<lparr>db_error = None, db_data = None\<rparr>),
      gh_dispatch = (\<lambda>tr req. disp),
      http_fetch = (\<lambda>tr u p. Inr \<lparr>fetch_ok = False, fetch_statusText = ''Unauthorized''\<rparr>),
      json_stringify = sample_stringify,
      number_to_string = (\<lambda>n. ''0''),
      clerk_auth = \<lparr>auth_userId = Some (JStr ''user_1''), auth_orgId = Some (JStr ''org_1''),
                    auth_orgSlug = Some (JStr ''acme'')\<rparr>\<rparr>"

text \<open>A body that can be read any number of times, and one that can be read once.\<close>

definition always_body :: "json \<Rightarrow> event list \<Rightarrow> thrown + json" where
  "always_body b tr = Inr b"

definition once_body :: "json \<Rightarrow> event list \<Rightarrow> thrown + json" where
  "once_body b tr =
     (if ReadBody \<in> set tr then Inl (JsError ''Body is unusable: Body has already been read'')
      else Inr b)"

definition sample_credentials :: json where
  "sample_credentials =
     JObj [(''host'', JStr ''h''), (''username'', JStr ''u''), (''password'', JStr ''p''),
           (''database'', JStr ''d'')]"

definition sample_destination :: "(string \<times> json) list" where
  "sample_destination =
     [(''type'', JStr ''warehouse''), (''credentials'', JObj [(''token'', JStr ''t'')])]"

definition sample_request :: "json \<Rightarrow> json \<Rightarrow> json" where
  "sample_request credentials destination =
     JObj [(''organization'', JStr ''org_1''), (''internal_warehouse'', JStr ''wh_1''),
           (''link_type'', JStr ''ClickHouse''), (''internal_credentials'', credentials),
           (''destination_config'', destination)]"

definition sample_body :: json where
  "sample_body = sample_request sample_credentials (JObj sample_destination)"

definition created :: "string \<Rightarrow> thrown + db_result" where
  "created ident = Inr \<lparr>db_error = None, db_data = Some [(''id'', JStr ident)]\<rparr>"

definition sample_parsed :: sync_request where
  "sample_parsed =
     \<lparr>organization = ''org_1'', internal_warehouse = ''wh_1'', link_type = ''ClickHouse'',
      internal_credentials =
        [(''host'', JStr ''h''), (''username'', JStr ''u''), (''password'', JStr ''p''),
         (''database'', JStr ''d'')],
      destination_config =
        \<lparr>dc_type = ''warehouse'', dc_credentials = [(''token'', JStr ''t'')],
         dc_options = \<lparr>mode = ''stream'', batchSize = Finite 10000\<rparr>\<rparr>\<rparr>"

text \<open>Requests whose \<open>destination_config.options.batchSize\<close> is the given value.\<close>

definition batch_body :: "json \<Rightarrow> json" where
  "batch_body v =
     sample_request sample_credentials
       (JObj (sample_destination @ [(''options'', JObj [(''batchSize'', v)])]))"

definition batch_parsed :: "js_number \<Rightarrow> sync_request" where
  "batch_parsed n =
     sample_parsed\<lparr>destination_config :=
       (destination_config sample_parsed)\<lparr>dc_options := \<lparr>mode = ''stream'', batchSize = n\<rparr>\<rparr>\<rparr>"

text \<open>A source that refuses the connection, and a client configured with nothing.\<close>

definition refused :: "thrown + string list" where
  "refused = Inl (JsError ''connect ECONNREFUSED'')"

definition no_config :: ch_config where
  "no_config = \<lparr>cfg_url = None, cfg_host = None, cfg_username = None, cfg_password = None,
                cfg_database = None\<rparr>"

text \<open>Bodies for the sources route: complete ClickHouse credentials, and the same without \<open>port\<close>.\<close>

definition source_body :: json where
  "source_body =
     JObj [(''type'', JStr ''clickhouse''),
           (''credentials'',
              JObj [(''host'', JStr ''h''), (''port'', JStr ''8443''), (''database'', JStr ''d''),
                    (''user'', JStr ''u''), (''password'', JStr ''p'')])]"

definition incomplete_source_body :: json where
  "incomplete_source_body =
     JObj [(''type'', JStr ''clickhouse''),
           (''credentials'',
              JObj [(''host'', JStr ''h''), (''database'', JStr ''d''),
                    (''user'', JStr ''u''), (''password'', JStr ''p'')])]"

text \<open>The same with a \<open>host\<close> that is a single no-break space, U+00A0.\<close>

definition blank_source_body :: json where
  "blank_source_body =
     JObj [(''type'', JStr ''clickhouse''),
           (''credentials'',
              JObj [(''host'', JStr [CHR 0xC2, CHR 0xA0]), (''port'', JStr ''8443''),
                    (''database'', JStr ''d''), (''user'', JStr ''u''),
                    (''password'', JStr ''p'')])]"

section \<open>Events of the extraction\<close>

lemma fetch_tables_trace:
  "\<exists>evs. snd (fetch_tables env cfg ts acc tr) = tr @ evs \<and> (\<forall>e\<in>set evs. is_query e)"
proof (induction ts arbitrary: acc tr)
  case Nil
  show ?case by simp
next
  case (Cons t ts)
  show ?case
  proof (cases "ch_query env tr cfg (select_query t)")
    case (Inl e)
    then show ?thesis by simp
  next
    case (Inr d)
    obtain evs where
      "snd (fetch_tables env cfg ts (obj_set acc t d) (tr @ [ChQuery cfg (select_query t)]))
         = (tr @ [ChQuery cfg (select_query t)]) @ evs"
      and "\<forall>e\<in>set evs. is_query e"
      using Cons.IH by blast
    with Inr show ?thesis by simp
  qed
qed

lemma getAllTables_trace:
  "\<exists>evs. snd (getAllTables env c tr) = tr @ evs \<and> (\<forall>e\<in>set evs. is_query e)"
  by (simp add: getAllTables_def Let_def split: option.splits)

lemma getTableData_trace:
  "\<exists>evs. snd (getTableData env c tr) = tr @ evs \<and> (\<forall>e\<in>set evs. is_query e)"
proof (cases "ch_client env (client_config c)")
  case (Some e)
  then show ?thesis by (simp add: getTableData_def Let_def)
next
  case None
  obtain r tr1 where g: "getAllTables env c tr = (r, tr1)" by (cases "getAllTables env c tr")
  obtain evs1 where e1: "tr1 = tr @ evs1" "\<forall>e\<in>set evs1. is_query e"
    using getAllTables_trace [of env c tr] g by auto
  show ?thesis
  proof (cases r)
    case (Inl e)
    with None g e1 show ?thesis by (simp add: getTableData_def Let_def)
  next
    case (Inr tables)
    obtain evs2 where
      "snd (fetch_tables env (client_config c) tables [] tr1) = tr1 @ evs2"
      "\<forall>e\<in>set evs2. is_query e"
      using fetch_tables_trace by blast
    with None g e1 Inr show ?thesis by (auto simp add: getTableData_def Let_def)
  qed
qed

section \<open>The first sync handler: what precedes an insert\<close>

lemma POST_sync_insert:
  assumes "DbInsert t row \<in> set (new_events tr (POST_sync env tr))"
  shows "\<exists>raw b snapshot tr1 tables tr2.
           read_body env tr = Inr raw \<and> requestSchema_safeParse raw = Inr b \<and>
           getTableData env (internal_credentials b) (tr @ [ReadBody]) = (Inr snapshot, tr1) \<and>
           getAllTables env (internal_credentials b) tr1 = (Inr tables, tr2) \<and>
           t = ''syncs'' \<and> row = sync_row b"
proof (cases "read_body env tr")
  case (Inl e)
  with assms show ?thesis by (simp add: POST_sync_def new_events_def)
next
  case raw: (Inr raw)
  show ?thesis
  proof (cases "requestSchema_safeParse raw")
    case (Inl iss)
    with raw assms show ?thesis by (simp add: POST_sync_def new_events_def)
  next
    case b: (Inr b)
    obtain r1 tr1 where g1: "getTableData env (internal_credentials b) (tr @ [ReadBody]) = (r1, tr1)"
      by (cases "getTableData env (internal_credentials b) (tr @ [ReadBody])")
    obtain evs1 where e1: "tr1 = tr @ [ReadBody] @ evs1" "\<forall>e\<in>set evs1. is_query e"
      using getTableData_trace [of env "internal_credentials b" "tr @ [ReadBody]"] g1 by auto
    obtain r2 tr2 where g2: "getAllTables env (internal_credentials b) tr1 = (r2, tr2)"
      by (cases "getAllTables env (internal_credentials b) tr1")
    obtain evs2 where e2: "tr2 = tr1 @ evs2" "\<forall>e\<in>set evs2. is_query e"
      using getAllTables_trace [of env "internal_credentials b" tr1] g2 by auto
    show ?thesis
    proof (cases r1)
      case (Inl e)
      with raw b g1 e1 assms show ?thesis
        by (auto simp add: POST_sync_def new_events_def)
    next
      case s: (Inr snapshot)
      show ?thesis
      proof (cases r2)
        case (Inl e)
        with raw b g1 s g2 e1 e2 assms show ?thesis
          by (auto simp add: POST_sync_def new_events_def)
      next
        case (Inr tables)
        with raw b g1 s g2 e1 e2 assms show ?thesis
          by (auto simp add: POST_sync_def new_events_def Let_def
                   split: sum.splits option.splits)
      qed
    qed
  qed
qed

section \<open>Validated requests\<close>

lemma not_isl_projr: "\<not> isl r \<Longrightarrow> r = Inr (projr r)"
  by (cases r) simp_all

lemma destinationConfigSchema_Inr:
  assumes "destinationConfigSchema p v = Inr dc"
  shows "\<exists>dkvs. v = Some (JObj dkvs) \<and>
           z_options (p @ [''options'']) (map_of dkvs ''options'') = Inr (dc_options dc)"
proof (cases v)
  case None
  with assms show ?thesis by simp
next
  case (Some j)
  show ?thesis
  proof (cases j)
    case (JObj dkvs)
    with Some assms show ?thesis
      by (auto simp add: Let_def not_isl_projr split: if_splits)
  qed (use Some assms in simp_all)
qed

lemma requestSchema_safeParse_Inr:
  assumes "requestSchema_safeParse raw = Inr b"
  shows "\<exists>kvs. raw = JObj kvs \<and>
           destinationConfigSchema [''destination_config''] (map_of kvs ''destination_config'')
             = Inr (destination_config b)"
proof (cases raw)
  case (JObj kvs)
  with assms show ?thesis
    by (auto simp add: Let_def not_isl_projr split: if_splits)
qed (use assms in simp_all)

lemma z_options_default:
  "z_options p None = Inr \<lparr>mode = ''stream'', batchSize = Finite 10000\<rparr>"
  by (simp add: z_options_def options_default_def Let_def)

lemma absent_options_default:
  assumes "requestSchema_safeParse raw = Inr b"
    and "json_at [''destination_config'', ''options''] raw = None"
  shows "dc_options (destination_config b) = \<lparr>mode = ''stream'', batchSize = Finite 10000\<rparr>"
proof -
  obtain kvs where raw: "raw = JObj kvs"
    and dc: "destinationConfigSchema [''destination_config''] (map_of kvs ''destination_config'')
               = Inr (destination_config b)"
    using requestSchema_safeParse_Inr [OF assms(1)] by blast
  obtain dkvs where v: "map_of kvs ''destination_config'' = Some (JObj dkvs)"
    and o: "z_options ([''destination_config''] @ [''options'']) (map_of dkvs ''options'')
              = Inr (dc_options (destination_config b))"
    using destinationConfigSchema_Inr [OF dc] by blast
  from assms(2) raw v have "map_of dkvs ''options'' = None"
    by (simp split: option.splits)
  with o show ?thesis by (simp add: z_options_default)
qed

lemma POST_sync_dispatch:
  assumes "GhDispatch req \<in> set (new_events tr (POST_sync env tr))"
  shows "\<exists>raw b snapshot tr1 tables tr2 res syncData.
           read_body env tr = Inr raw \<and> requestSchema_safeParse raw = Inr b \<and>
           getTableData env (internal_credentials b) (tr @ [ReadBody]) = (Inr snapshot, tr1) \<and>
           getAllTables env (internal_credentials b) tr1 = (Inr tables, tr2) \<and>
           db_insert env tr2 ''syncs'' (sync_row b) = Inr res \<and>
           db_error res = None \<and> db_data res = Some syncData \<and>
           req = bulker_dispatch env (organization b) snapshot"
proof (cases "read_body env tr")
  case (Inl e)
  with assms show ?thesis by (simp add: POST_sync_def new_events_def)
next
  case raw: (Inr raw)
  show ?thesis
  proof (cases "requestSchema_safeParse raw")
    case (Inl iss)
    with raw assms show ?thesis by (simp add: POST_sync_def new_events_def)
  next
    case b: (Inr b)
    obtain r1 tr1 where g1: "getTableData env (internal_credentials b) (tr @ [ReadBody]) = (r1, tr1)"
      by (cases "getTableData env (internal_credentials b) (tr @ [ReadBody])")
    obtain evs1 where e1: "tr1 = tr @ [ReadBody] @ evs1" "\<forall>e\<in>set evs1. is_query e"
      using getTableData_trace [of env "internal_credentials b" "tr @ [ReadBody]"] g1 by auto
    obtain r2 tr2 where g2: "getAllTables env (internal_credentials b) tr1 = (r2, tr2)"
      by (cases "getAllTables env (internal_credentials b) tr1")
    obtain evs2 where e2: "tr2 = tr1 @ evs2" "\<forall>e\<in>set evs2. is_query e"
      using getAllTables_trace [of env "internal_credentials b" tr1] g2 by auto
    show ?thesis
    proof (cases r1)
      case (Inl e)
      with raw b g1 e1 assms show ?thesis
        by (auto simp add: POST_sync_def new_events_def)
    next
      case s: (Inr snapshot)
      show ?thesis
      proof (cases r2)
        case (Inl e)
        with raw b g1 s g2 e1 e2 assms show ?thesis
          by (auto simp add: POST_sync_def new_events_def)
      next
        case (Inr tables)
        with raw b g1 s g2 e1 e2 assms show ?thesis
          by (auto simp add: POST_sync_def new_events_def Let_def
                   split: sum.splits option.splits)
      qed
    qed
  qed
qed

lemma POST_sync_responds: "\<exists>resp. fst (POST_sync env tr) = Responded resp"
  by (simp add: POST_sync_def Let_def respond_def etl_failed_def validation_failed_def
        database_error_def no_data_returned_def github_api_error_def initiated_def
      split: sum.splits option.splits prod.splits)

lemma POST_sync_extraction_failure:
  assumes "read_body env tr = Inr raw" and "requestSchema_safeParse raw = Inr b"
    and "fst (getTableData env (internal_credentials b) (tr @ [ReadBody])) = Inl e
         \<or> (\<exists>snapshot tr1.
               getTableData env (internal_credentials b) (tr @ [ReadBody]) = (Inr snapshot, tr1)
               \<and> fst (getAllTables env (internal_credentials b) tr1) = Inl e)"
  shows "fst (POST_sync env tr) = etl_failed e (Some JNull)"
    and "DbInsert t row \<notin> set (new_events tr (POST_sync env tr))"
proof -
  from assms show "fst (POST_sync env tr) = etl_failed e (Some JNull)"
    by (auto simp add: POST_sync_def split: sum.splits prod.splits)
  show "DbInsert t row \<notin> set (new_events tr (POST_sync env tr))"
  proof
    assume "DbInsert t row \<in> set (new_events tr (POST_sync env tr))"
    from POST_sync_insert [OF this] assms show False by auto
  qed
qed

section \<open>Validated requests: link type and batch size\<close>

lemma z_string_Inr: "z_string p v = Inr s \<Longrightarrow> v = Some (JStr s)"
  by (erule z_string.elims) simp_all

lemma parsed_link_type:
  assumes "requestSchema_safeParse raw = Inr b"
  shows "json_at [''link_type''] raw = Some (JStr (link_type b))"
proof (cases raw)
  case (JObj kvs)
  with assms have "z_string_min1 [''link_type''] (map_of kvs ''link_type'') = Inr (link_type b)"
    by (auto simp add: Let_def not_isl_projr split: if_splits)
  then have "map_of kvs ''link_type'' = Some (JStr (link_type b))"
    by (auto simp add: z_string_min1_def dest: z_string_Inr split: sum.splits if_splits)
  with JObj show ?thesis by simp
qed (use assms in simp_all)

lemma POST_sync_link_type:
  assumes "DbInsert t row \<in> set (new_events tr (POST_sync env tr))"
  shows "\<exists>raw s. read_body env tr = Inr raw \<and> json_at [''link_type''] raw = Some (JStr s) \<and>
           json_at [''link_type''] row = Some (JStr (toLowerCase s))"
proof -
  from POST_sync_insert [OF assms] obtain raw b where
    "read_body env tr = Inr raw" "requestSchema_safeParse raw = Inr b" "row = sync_row b"
    by blast
  with parsed_link_type [of raw b] show ?thesis
    by (auto simp add: sync_row_def)
qed

lemma z_options_batchSize:
  assumes "z_options p (Some (JObj okvs)) = Inr opts" and "map_of okvs ''batchSize'' = Some v"
  shows "v = JNum (batchSize opts)"
proof (cases v)
  case (JNum n)
  with assms show ?thesis
    by (auto simp add: z_options_def Let_def not_isl_projr split: if_splits)
qed (use assms in \<open>auto simp add: z_options_def Let_def split: if_splits\<close>)

lemma z_options_Inr:
  assumes "z_options p (Some j) = Inr opts"
  shows "\<exists>okvs. j = JObj okvs"
  using assms by (cases j) (simp_all add: z_options_def)

lemma parsed_batchSize:
  assumes "requestSchema_safeParse raw = Inr b"
    and "json_at [''destination_config'', ''options'', ''batchSize''] raw = Some v"
  shows "v = JNum (batchSize (dc_options (destination_config b)))"
proof -
  obtain kvs where raw: "raw = JObj kvs"
    and dc: "destinationConfigSchema [''destination_config''] (map_of kvs ''destination_config'')
               = Inr (destination_config b)"
    using requestSchema_safeParse_Inr [OF assms(1)] by blast
  obtain dkvs where v: "map_of kvs ''destination_config'' = Some (JObj dkvs)"
    and o: "z_options ([''destination_config''] @ [''options'']) (map_of dkvs ''options'')
              = Inr (dc_options (destination_config b))"
    using destinationConfigSchema_Inr [OF dc] by blast
  from assms(2) raw v obtain j where j: "map_of dkvs ''options'' = Some j"
    and at: "json_at [''batchSize''] j = Some v"
    by (auto split: option.splits)
  from o j obtain okvs where okvs: "j = JObj okvs" using z_options_Inr by metis
  with at have "map_of okvs ''batchSize'' = Some v" by (simp split: option.splits)
  with o j okvs show ?thesis using z_options_batchSize by metis
qed

section \<open>The snapshot does not depend on the second table listing\<close>

lemma fetch_tables_show_tables:
  "fetch_tables (env\<lparr>ch_show_tables := f\<rparr>) cfg ts acc tr = fetch_tables env cfg ts acc tr"
  by (induction ts arbitrary: acc tr) (simp_all split: sum.splits)

lemma getTableData_longer:
  assumes "getTableData env c tr = (Inr snapshot, tr1)"
  shows "length tr < length tr1"
proof -
  from assms obtain tables where
    g: "getAllTables env c tr = (Inr tables, tr @ [ChQuery (client_config c) ''SHOW TABLES''])"
    and f: "fetch_tables env (client_config c) tables []
              (tr @ [ChQuery (client_config c) ''SHOW TABLES'']) = (Inr snapshot, tr1)"
    by (auto simp add: getTableData_def getAllTables_def Let_def
             split: option.splits sum.splits prod.splits)
  obtain evs where "snd (fetch_tables env (client_config c) tables []
              (tr @ [ChQuery (client_config c) ''SHOW TABLES''])) =
              (tr @ [ChQuery (client_config c) ''SHOW TABLES'']) @ evs"
    using fetch_tables_trace by blast
  with f show ?thesis by simp
qed

lemma getTableData_show_tables:
  assumes "f tr = ch_show_tables env tr"
  shows "getTableData (env\<lparr>ch_show_tables := f\<rparr>) c tr = getTableData env c tr"
  using assms
  by (simp add: getTableData_def getAllTables_def Let_def fetch_tables_show_tables
           split: option.splits sum.splits)

section \<open>A refused dispatch\<close>

lemma POST_sync_dispatch_rejected:
  assumes "GhDispatch req \<in> set (new_events tr (POST_sync env tr))"
    and "\<forall>tr'. gh_dispatch env tr' req = Some m"
  shows "\<exists>evs row syncData tr'.
           db_insert env tr' ''syncs'' row = Inr \<lparr>db_error = None, db_data = Some syncData\<rparr> \<and>
           fst (POST_sync env tr) =
             Responded \<lparr>resp_status = 422,
                        resp_body = obj_literal
                          [(''success'', Some (JBool False)),
                           (''syncId'', map_of syncData ''id''),
                           (''error'', Some (JStr ''GitHub API error'')),
                           (''details'', Some (JStr m))]\<rparr> \<and>
           new_events tr (POST_sync env tr) = evs @ [DbInsert ''syncs'' row, GhDispatch req] \<and>
           (\<forall>e\<in>set evs. e = ReadBody \<or> is_query e)"
proof -
  obtain raw b snapshot tr1 tables tr2 res syncData where
    raw: "read_body env tr = Inr raw" and b: "requestSchema_safeParse raw = Inr b"
    and g1: "getTableData env (internal_credentials b) (tr @ [ReadBody]) = (Inr snapshot, tr1)"
    and g2: "getAllTables env (internal_credentials b) tr1 = (Inr tables, tr2)"
    and ins: "db_insert env tr2 ''syncs'' (sync_row b) = Inr res"
      "db_error res = None" "db_data res = Some syncData"
    and req: "req = bulker_dispatch env (organization b) snapshot"
    using POST_sync_dispatch [OF assms(1)] by blast
  obtain evs1 where e1: "tr1 = tr @ [ReadBody] @ evs1" "\<forall>e\<in>set evs1. is_query e"
    using getTableData_trace [of env "internal_credentials b" "tr @ [ReadBody]"] g1 by auto
  obtain evs2 where e2: "tr2 = tr1 @ evs2" "\<forall>e\<in>set evs2. is_query e"
    using getAllTables_trace [of env "internal_credentials b" tr1] g2 by auto
  have res: "res = \<lparr>db_error = None, db_data = Some syncData\<rparr>"
    using ins(2,3) by (cases res) simp
  have p: "POST_sync env tr =
          (github_api_error (map_of syncData ''id'') m,
           tr2 @ [DbInsert ''syncs'' (sync_row b), GhDispatch req])"
    using raw b g1 g2 ins assms(2) req by (simp add: POST_sync_def Let_def)
  have "new_events tr (POST_sync env tr)
          = ([ReadBody] @ evs1 @ evs2) @ [DbInsert ''syncs'' (sync_row b), GhDispatch req]"
    using p e1 e2 by (simp add: new_events_def)
  moreover have "\<forall>e\<in>set ([ReadBody] @ evs1 @ evs2). e = ReadBody \<or> is_query e"
    using e1(2) e2(2) by auto
  moreover have "db_insert env tr2 ''syncs'' (sync_row b)
                   = Inr \<lparr>db_error = None, db_data = Some syncData\<rparr>"
    using ins(1) res by simp
  moreover have "fst (POST_sync env tr) =
             Responded \<lparr>resp_status = 422,
                        resp_body = obj_literal
                          [(''success'', Some (JBool False)),
                           (''syncId'', map_of syncData ''id''),
                           (''error'', Some (JStr ''GitHub API error'')),
                           (''details'', Some (JStr m))]\<rparr>"
    using p by (simp add: github_api_error_def respond_def)
  ultimately show ?thesis by blast
qed

lemma POST_etl_responds: "\<exists>resp. fst (POST_etl env tr) = Responded resp"
  by (simp add: POST_etl_def Let_def respond_def etl_failed_def completed_def
      split: sum.splits option.splits)

section \<open>The second sync handler and a body that is read once\<close>

lemma POST_sync2_body_read_once:
  assumes "read_body env = once_body b"
  shows "\<exists>e tr'. POST_sync2 env tr = (Rejected e, tr')"
  using assms
  by (auto simp add: POST_sync2_def getTableData_request_def getAllTables_request_def
                     once_body_def
           split: sum.splits prod.splits)

section \<open>The credential check of the sources route\<close>

lemma every_field_True:
  "every_field c fs = Inr True \<Longrightarrow>
     \<forall>f\<in>set fs. \<exists>s. js_get c f = Inr (Some (JStr s)) \<and> js_trim s \<noteq> []"
proof (induction fs)
  case Nil
  show ?case by simp
next
  case (Cons f fs)
  from Cons.prems obtain s where
    "js_get c f = Inr (Some (JStr s))" "js_trim s \<noteq> []" "every_field c fs = Inr True"
    by (auto split: sum.splits if_splits option.splits json.splits)
  with Cons.IH show ?case by simp
qed

lemma validateCredentials_True:
  assumes "validateCredentials t c = Inr True"
  shows "\<exists>required. map_of requiredFields t = Some required \<and>
           (\<forall>f\<in>set required. \<exists>s. js_get c f = Inr (Some (JStr s)) \<and> js_trim s \<noteq> [])"
  using assms every_field_True
  by (auto simp add: validateCredentials_def split: option.splits if_splits)

lemma POST_sources_insert:
  assumes "DbInsert t row \<in> set (new_events tr (POST_sources env tr))"
  shows "\<exists>b ty c. read_body env tr = Inr b \<and> js_destructure b ''type'' = Inr ty \<and>
           js_destructure b ''credentials'' = Inr c \<and>
           validateCredentials (to_property_key (number_to_string env) ty) c = Inr True"
  using assms
  by (auto simp add: POST_sources_def new_events_def Let_def
           split: sum.splits option.splits if_splits)

section \<open>Replacing the batch size of a request\<close>

lemma map_of_json_put_props:
  "map_of (json_put_props k ks new ps) k' =
     (if k' = k then map_option (json_put ks new) (map_of ps k) else map_of ps k')"
  by (induction ps) auto

lemma keys_json_put_props: "map fst (json_put_props k ks new ps) = map fst ps"
  by (induction ps) auto

lemma unrecognized_keys_json_put_props:
  "unrecognized_keys p shape (json_put_props k ks new ps) = unrecognized_keys p shape ps"
  by (simp add: unrecognized_keys_def keys_json_put_props)

lemma z_options_object_iff:
  "z_options_object p (Some (JObj okvs)) = Inr opts \<longleftrightarrow>
     z_mode (p @ [''mode'']) (map_of okvs ''mode'') = Inr (mode opts) \<and>
     z_batchSize (p @ [''batchSize'']) (map_of okvs ''batchSize'') = Inr (batchSize opts)"
  by (cases opts) (auto simp add: Let_def not_isl_projr)

lemma destinationConfigSchema_iff:
  "destinationConfigSchema p (Some (JObj dkvs)) = Inr dc \<longleftrightarrow>
     z_string (p @ [''type'']) (map_of dkvs ''type'') = Inr (dc_type dc) \<and>
     z_record_any (p @ [''credentials'']) (map_of dkvs ''credentials'') = Inr (dc_credentials dc) \<and>
     z_options (p @ [''options'']) (map_of dkvs ''options'') = Inr (dc_options dc) \<and>
     unrecognized_keys p [''type'', ''credentials'', ''options''] dkvs = []"
  by (cases dc) (auto simp add: Let_def not_isl_projr)

lemma requestSchema_safeParse_iff:
  "requestSchema_safeParse (JObj kvs) = Inr b \<longleftrightarrow>
     z_string_min1 [''organization''] (map_of kvs ''organization'') = Inr (organization b) \<and>
     z_string_min1 [''internal_warehouse''] (map_of kvs ''internal_warehouse'')
       = Inr (internal_warehouse b) \<and>
     z_string_min1 [''link_type''] (map_of kvs ''link_type'') = Inr (link_type b) \<and>
     z_record_any [''internal_credentials''] (map_of kvs ''internal_credentials'')
       = Inr (internal_credentials b) \<and>
     destinationConfigSchema [''destination_config''] (map_of kvs ''destination_config'')
       = Inr (destination_config b) \<and>
     unrecognized_keys []
       [''organization'', ''internal_warehouse'', ''link_type'', ''internal_credentials'',
        ''destination_config''] kvs = []"
  by (cases b) (auto simp add: Let_def not_isl_projr)

lemma put_batchSize_valid:
  assumes "requestSchema_safeParse raw = Inr b"
    and "json_at [''destination_config'', ''options'', ''batchSize''] raw = Some v"
  shows "requestSchema_safeParse
           (json_put [''destination_config'', ''options'', ''batchSize''] (JNum n) raw)
         = Inr (b\<lparr>destination_config :=
                   (destination_config b)\<lparr>dc_options :=
                      (dc_options (destination_config b))\<lparr>batchSize := n\<rparr>\<rparr>\<rparr>)"
    and "json_at [''destination_config'', ''options'', ''batchSize'']
           (json_put [''destination_config'', ''options'', ''batchSize''] (JNum n) raw)
         = Some (JNum n)"
proof -
  obtain kvs where raw: "raw = JObj kvs"
    using requestSchema_safeParse_Inr [OF assms(1)] by blast
  from assms(2) raw obtain dj where dj: "map_of kvs ''destination_config'' = Some dj"
    and at1: "json_at [''options'', ''batchSize''] dj = Some v"
    by (auto split: option.splits)
  from at1 obtain dkvs where dkvs: "dj = JObj dkvs" by (cases dj) simp_all
  from at1 dkvs obtain oj where oj: "map_of dkvs ''options'' = Some oj"
    and at2: "json_at [''batchSize''] oj = Some v"
    by (auto split: option.splits)
  from at2 obtain okvs where okvs: "oj = JObj okvs" by (cases oj) simp_all
  from at2 okvs have bs: "map_of okvs ''batchSize'' = Some v" by (simp split: option.splits)
  let ?okvs' = "json_put_props ''batchSize'' [] (JNum n) okvs"
  let ?dkvs' = "json_put_props ''options'' [''batchSize''] (JNum n) dkvs"
  let ?kvs' = "json_put_props ''destination_config'' [''options'', ''batchSize''] (JNum n) kvs"
  let ?opts = "dc_options (destination_config b)"
  let ?dc = "destination_config b"
  from assms(1) raw have top:
    "z_string_min1 [''organization''] (map_of kvs ''organization'') = Inr (organization b)"
    "z_string_min1 [''internal_warehouse''] (map_of kvs ''internal_warehouse'')
       = Inr (internal_warehouse b)"
    "z_string_min1 [''link_type''] (map_of kvs ''link_type'') = Inr (link_type b)"
    "z_record_any [''internal_credentials''] (map_of kvs ''internal_credentials'')
       = Inr (internal_credentials b)"
    "destinationConfigSchema [''destination_config''] (Some (JObj dkvs)) = Inr ?dc"
    "unrecognized_keys []
       [''organization'', ''internal_warehouse'', ''link_type'', ''internal_credentials'',
        ''destination_config''] kvs = []"
    using dj dkvs
    by (simp_all add: requestSchema_safeParse_iff
             del: requestSchema_safeParse.simps destinationConfigSchema.simps)
  from top(5) have mid:
    "z_string ([''destination_config''] @ [''type'']) (map_of dkvs ''type'') = Inr (dc_type ?dc)"
    "z_record_any ([''destination_config''] @ [''credentials'']) (map_of dkvs ''credentials'')
       = Inr (dc_credentials ?dc)"
    "z_options_object ([''destination_config''] @ [''options'']) (Some (JObj okvs)) = Inr ?opts"
    "unrecognized_keys [''destination_config''] [''type'', ''credentials'', ''options''] dkvs = []"
    using oj okvs
    by (simp_all add: destinationConfigSchema_iff z_options_def
             del: destinationConfigSchema.simps z_options_object.simps)
  from mid(3) have low:
    "z_mode (([''destination_config''] @ [''options'']) @ [''mode'']) (map_of okvs ''mode'')
       = Inr (mode ?opts)"
    by (simp add: z_options_object_iff del: z_options_object.simps)
  have o': "z_options_object ([''destination_config''] @ [''options'']) (Some (JObj ?okvs'))
              = Inr (?opts\<lparr>batchSize := n\<rparr>)"
    using low bs
    by (simp add: z_options_object_iff map_of_json_put_props del: z_options_object.simps)
  have d': "destinationConfigSchema [''destination_config''] (Some (JObj ?dkvs'))
              = Inr (?dc\<lparr>dc_options := ?opts\<lparr>batchSize := n\<rparr>\<rparr>)"
    using mid(1,2,4) o' oj okvs
    by (simp add: destinationConfigSchema_iff z_options_def map_of_json_put_props
                  unrecognized_keys_json_put_props
             del: destinationConfigSchema.simps z_options_object.simps)
  have "requestSchema_safeParse (JObj ?kvs')
          = Inr (b\<lparr>destination_config := ?dc\<lparr>dc_options := ?opts\<lparr>batchSize := n\<rparr>\<rparr>\<rparr>)"
    using top(1,2,3,4,6) d' dj dkvs
    by (simp add: requestSchema_safeParse_iff map_of_json_put_props
                  unrecognized_keys_json_put_props
             del: requestSchema_safeParse.simps destinationConfigSchema.simps)
  with raw show "requestSchema_safeParse
           (json_put [''destination_config'', ''options'', ''batchSize''] (JNum n) raw)
         = Inr (b\<lparr>destination_config :=
                   (destination_config b)\<lparr>dc_options :=
                      (dc_options (destination_config b))\<lparr>batchSize := n\<rparr>\<rparr>\<rparr>)"
    by simp
  from raw dj dkvs oj okvs bs
  show "json_at [''destination_config'', ''options'', ''batchSize'']
           (json_put [''destination_config'', ''options'', ''batchSize''] (JNum n) raw)
         = Some (JNum n)"
    by (simp add: map_of_json_put_props)
qed

lemma z_batchSize_not_number:
  "\<forall>n. v \<noteq> JNum n \<Longrightarrow> z_batchSize p (Some v) = Inl [Issue ''invalid_type'' p]"
  by (cases v) simp_all

lemma non_number_batchSize_issue:
  assumes "json_at [''destination_config'', ''options'', ''batchSize''] raw = Some v"
    and "\<forall>n. v \<noteq> JNum n"
  shows "\<exists>issues. requestSchema_safeParse raw = Inl issues \<and>
           Issue ''invalid_type'' [''destination_config'', ''options'', ''batchSize'']
             \<in> set issues"
proof -
  from assms(1) obtain kvs where raw: "raw = JObj kvs" by (cases raw) simp_all
  from assms(1) raw obtain dj where dj: "map_of kvs ''destination_config'' = Some dj"
    and at1: "json_at [''options'', ''batchSize''] dj = Some v"
    by (auto split: option.splits)
  from at1 obtain dkvs where dkvs: "dj = JObj dkvs" by (cases dj) simp_all
  from at1 dkvs obtain oj where oj: "map_of dkvs ''options'' = Some oj"
    and at2: "json_at [''batchSize''] oj = Some v"
    by (auto split: option.splits)
  from at2 obtain okvs where okvs: "oj = JObj okvs" by (cases oj) simp_all
  from at2 okvs have bs: "map_of okvs ''batchSize'' = Some v" by (simp split: option.splits)
  let ?i = "Issue ''invalid_type'' [''destination_config'', ''options'', ''batchSize'']"
  have o: "\<exists>is. z_options [''destination_config'', ''options''] (Some (JObj okvs)) = Inl is
             \<and> ?i \<in> set is"
    using bs z_batchSize_not_number [OF assms(2)]
    by (simp add: z_options_def Let_def issues_of_def)
  then obtain is1 where is1:
    "z_options [''destination_config'', ''options''] (Some (JObj okvs)) = Inl is1" "?i \<in> set is1"
    by blast
  have d: "\<exists>is. destinationConfigSchema [''destination_config''] (Some (JObj dkvs)) = Inl is
             \<and> ?i \<in> set is"
    using is1 oj okvs by (simp add: Let_def issues_of_def)
  then obtain is2 where is2:
    "destinationConfigSchema [''destination_config''] (Some (JObj dkvs)) = Inl is2" "?i \<in> set is2"
    by blast
  show ?thesis
    using is2 dj dkvs raw by (simp add: Let_def issues_of_def)
qed

lemma stored_batchSize:
  assumes "read_body env tr = Inr raw"
    and "json_at [''destination_config'', ''options'', ''batchSize''] raw = Some (JNum n)"
    and "DbInsert t row \<in> set (new_events tr (POST_sync env tr))"
  shows "json_at [''destination_config'', ''options'', ''batchSize''] row = Some (JNum n)"
proof -
  from POST_sync_insert [OF assms(3)] assms(1) obtain b where
    b: "requestSchema_safeParse raw = Inr b" and row: "row = sync_row b"
    by auto
  from parsed_batchSize [OF b assms(2)]
  have "batchSize (dc_options (destination_config b)) = n" by simp
  with row show ?thesis
    by (simp add: sync_row_def destination_config_json_def options_json_def)
qed

section \<open>The first query of the sync handler\<close>

lemma every_field_strings:
  "\<forall>g\<in>set fs. js_get c g = Inr None \<or> (\<exists>s. js_get c g = Inr (Some (JStr s)))
   \<Longrightarrow> \<exists>ok. every_field c fs = Inr ok"
  by (induction fs) auto

lemma getTableData_first_query:
  assumes "ch_client env (client_config c) = None"
  shows "\<exists>evs. snd (getTableData env c tr) = tr @ ChQuery (client_config c) ''SHOW TABLES'' # evs"
proof -
  have g: "getAllTables env c tr
             = (ch_show_tables env tr (client_config c),
                tr @ [ChQuery (client_config c) ''SHOW TABLES''])"
    using assms by (simp add: getAllTables_def Let_def)
  show ?thesis
  proof (cases "ch_show_tables env tr (client_config c)")
    case (Inl e)
    with assms g show ?thesis by (simp add: getTableData_def Let_def)
  next
    case (Inr tables)
    obtain evs where
      "snd (fetch_tables env (client_config c) tables []
              (tr @ [ChQuery (client_config c) ''SHOW TABLES'']))
         = (tr @ [ChQuery (client_config c) ''SHOW TABLES'']) @ evs"
      using fetch_tables_trace by blast
    with assms g Inr show ?thesis by (simp add: getTableData_def Let_def)
  qed
qed

lemma POST_sync_after_extraction:
  assumes "read_body env tr = Inr raw" and "requestSchema_safeParse raw = Inr b"
  shows "\<exists>rest. snd (POST_sync env tr)
                  = snd (getTableData env (internal_credentials b) (tr @ [ReadBody])) @ rest"
proof -
  obtain r1 tr1 where g1: "getTableData env (internal_credentials b) (tr @ [ReadBody]) = (r1, tr1)"
    by (cases "getTableData env (internal_credentials b) (tr @ [ReadBody])")
  obtain r2 tr2 where g2: "getAllTables env (internal_credentials b) tr1 = (r2, tr2)"
    by (cases "getAllTables env (internal_credentials b) tr1")
  obtain evs2 where e2: "tr2 = tr1 @ evs2"
    using getAllTables_trace [of env "internal_credentials b" tr1] g2 by auto
  show ?thesis
    using assms g1 g2 e2
    by (auto simp add: POST_sync_def Let_def split: sum.splits option.splits)
qed

section \<open>The first sync handler at a refused dispatch\<close>

lemma sync_dispatch_failure_is_422:
  "POST_sync (sample_env (always_body sample_body) (Inr []) (Inr (JArr []))
                (created ''sync_1'') (Some ''Not Found'')) []
     = (Responded \<lparr>resp_status = 422,
                   resp_body = JObj [(''success'', JBool False), (''syncId'', JStr ''sync_1''),
                                     (''error'', JStr ''GitHub API error''),
                                     (''details'', JStr ''Not Found'')]\<rparr>,
        [ReadBody,
         ChQuery (client_config (internal_credentials sample_parsed)) ''SHOW TABLES'',
         ChQuery (client_config (internal_credentials sample_parsed)) ''SHOW TABLES'',
         DbInsert ''syncs'' (sync_row sample_parsed),
         GhDispatch \<lparr>gh_owner = ''portcullis-co'', gh_repo = ''portcullis-app'',
                     gh_workflow_id = ''deploy-bulker.yml'', gh_ref = ''bulker'',
                     inputs_org_id = ''org_1'', inputs_data = ''{}''\<rparr>])"
  by code_simp

section \<open>Extraction failures\<close>

text \<open>
  C1. When introspection or snapshot extraction fails, the endpoint answers with an error
  whose \<open>syncId\<close> is \<open>null\<close> and no job record is created. The first sync handler does
  so (\<open>POST_sync_extraction_failure\<close>). The second sync handler awaits the snapshot before
  its \<open>try\<close> block is entered: below, the \<open>SELECT\<close> on the table \<open>events\<close> fails, and
  the handler rejects with the error of the source instead of answering.
\<close>

theorem sync2_rejects_on_extraction_failure:
  "POST_sync2 (sample_env (always_body sample_body) (Inr [''events''])
                 (Inl (JsError ''Table default.events does not exist''))
                 (created ''sync_1'') None) []
     = (Rejected (JsError ''Table default.events does not exist''),
        [ReadBody, ReadBody,
         ChQuery (no_config\<lparr>cfg_host := Some (JStr ''h''), cfg_username := Some (JStr ''u''),
                    cfg_password := Some (JStr ''p''), cfg_database := Some (JStr ''d'')\<rparr>)
           ''SHOW TABLES'',
         ChQuery (no_config\<lparr>cfg_host := Some (JStr ''h''), cfg_username := Some (JStr ''u''),
                    cfg_password := Some (JStr ''p''), cfg_database := Some (JStr ''d'')\<rparr>)
           (select_query ''events'')])"
  by code_simp

section \<open>Dispatch failures\<close>

text \<open>
  C2. When the dispatch fails after the store returned the created row, the answer has
  status 422, \<open>success: false\<close>, the id of the row, a dispatch error and its details, and
  the row is kept. The first sync handler answers so (\<open>POST_sync_dispatch_rejected\<close>,
  \<open>sync_dispatch_failure_is_422\<close>). The ETL handler throws the failed dispatch into its
  outer \<open>catch\<close>: below, the store returned the row \<open>sync_1\<close> and the endpoint refused
  the call, and the answer has status 500 and no details; the insert is the only store
  operation.
\<close>

theorem etl_dispatch_failure_is_500:
  "POST_etl (sample_env (always_body sample_body) (Inr []) (Inr (JArr []))
               (created ''sync_1'') None) []
     = (Responded \<lparr>resp_status = 500,
                   resp_body = JObj [(''success'', JBool False), (''syncId'', JStr ''sync_1''),
                                     (''error'',
                                        JStr ''Failed to send data to Bulker: Unauthorized'')]\<rparr>,
        [ReadBody, DbInsert ''syncs'' (etl_row sample_body), HttpFetch bulker_url None])"
  by code_simp

section \<open>Errors that leave the handler\<close>

text \<open>
  C3. Every error of every stage is caught and turned into a JSON response. The first sync
  handler and the ETL handler always answer (\<open>POST_sync_responds\<close>,
  \<open>POST_etl_responds\<close>). The second sync handler does not: with a source that refuses the
  connection, the error of \<open>SHOW TABLES\<close> leaves the handler unhandled.
\<close>

theorem sync2_rejects_when_source_unreachable:
  "POST_sync2 (sample_env (always_body sample_body) refused (Inr (JArr []))
                 (created ''sync_1'') None) []
     = (Rejected (JsError ''connect ECONNREFUSED''),
        [ReadBody, ReadBody,
         ChQuery (no_config\<lparr>cfg_host := Some (JStr ''h''), cfg_username := Some (JStr ''u''),
                    cfg_password := Some (JStr ''p''), cfg_database := Some (JStr ''d'')\<rparr>)
           ''SHOW TABLES''])"
  by code_simp

section \<open>The stored link type\<close>

text \<open>
  C4. The stored \<open>link_type\<close> is the request's \<open>link_type\<close> in lower case. The first sync
  handler stores it so (\<open>POST_sync_link_type\<close>). The ETL handler computes the lower-case
  value and then stores the body's own \<open>link_type\<close>: for \<open>ClickHouse\<close> the row keeps
  \<open>ClickHouse\<close>.
\<close>

theorem etl_stores_link_type_as_given:
  "snd (POST_etl (sample_env (always_body sample_body) (Inr []) (Inr (JArr []))
                    (created ''sync_1'') None) [])
     = [ReadBody, DbInsert ''syncs'' (etl_row sample_body), HttpFetch bulker_url None]
   \<and> json_at [''link_type''] sample_body = Some (JStr ''ClickHouse'')
   \<and> json_at [''link_type''] (etl_row sample_body) = Some (JStr ''ClickHouse'')
   \<and> toLowerCase ''ClickHouse'' = ''clickhouse''"
  by code_simp

section \<open>Defaults of the destination options\<close>

text \<open>
  C5. For every valid request whose \<open>destination_config\<close> has no \<open>options\<close>, the row that
  the first sync handler hands to the store has
  \<open>destination_config.options = {mode: "stream", batchSize: 10000}\<close>.
\<close>

theorem default_options_persisted:
  assumes "read_body env tr = Inr raw"
    and "requestSchema_safeParse raw = Inr b"
    and "json_at [''destination_config'', ''options''] raw = None"
    and "DbInsert t row \<in> set (new_events tr (POST_sync env tr))"
  shows "json_at [''destination_config'', ''options''] row
           = Some (JObj [(''mode'', JStr ''stream''), (''batchSize'', JNum (Finite 10000))])"
proof -
  from POST_sync_insert [OF assms(4)] assms(1,2) have "row = sync_row b" by auto
  moreover have "dc_options (destination_config b) = \<lparr>mode = ''stream'', batchSize = Finite 10000\<rparr>"
    using absent_options_default [OF assms(2,3)] .
  ultimately show ?thesis
    by (simp add: sync_row_def destination_config_json_def options_json_def)
qed

theorem default_options_persisted_witness:
  "read_body (sample_env (always_body sample_body) (Inr [''events'']) (Inr (JArr []))
                (created ''sync_1'') None) [] = Inr sample_body
   \<and> requestSchema_safeParse sample_body = Inr sample_parsed
   \<and> json_at [''destination_config'', ''options''] sample_body = None
   \<and> DbInsert ''syncs'' (sync_row sample_parsed)
         \<in> set (new_events []
                  (POST_sync (sample_env (always_body sample_body) (Inr [''events''])
                                (Inr (JArr [])) (created ''sync_1'') None) []))
   \<and> json_at [''destination_config'', ''options''] (sync_row sample_parsed)
       = Some (JObj [(''mode'', JStr ''stream''), (''batchSize'', JNum (Finite 10000))])"
proof -
  let ?env = "sample_env (always_body sample_body) (Inr [''events'']) (Inr (JArr []))
                (created ''sync_1'') None"
  have 1: "read_body ?env [] = Inr sample_body" by code_simp
  have 2: "requestSchema_safeParse sample_body = Inr sample_parsed" by code_simp
  have 3: "json_at [''destination_config'', ''options''] sample_body = None" by code_simp
  have 4: "DbInsert ''syncs'' (sync_row sample_parsed) \<in> set (new_events [] (POST_sync ?env []))"
    by code_simp
  show ?thesis using 1 2 3 4 default_options_persisted [OF 1 2 3 4] by blast
qed

section \<open>The batch size\<close>

text \<open>
  C6. A request whose \<open>destination_config.options.batchSize\<close> is present and is not a
  number is answered with status 400 and the validation failure, whose details name that
  field, and nothing but the body was touched. A request that validates with one batch
  size validates with every number in its place, zero, negative, fractional and infinite
  numbers included, and the row handed to the store carries the number of the request.
\<close>

theorem batch_size_must_be_number:
  "(read_body env tr = Inr raw \<and>
    json_at [''destination_config'', ''options'', ''batchSize''] raw = Some v \<and>
    (\<forall>n. v \<noteq> JNum n)
    \<longrightarrow> (\<exists>issues.
           Issue ''invalid_type'' [''destination_config'', ''options'', ''batchSize'']
             \<in> set issues \<and>
           POST_sync env tr =
             (Responded \<lparr>resp_status = 400,
                          resp_body = JObj [(''success'', JBool False),
                                            (''error'', JStr ''Validation failed''),
                                            (''details'', JArr (map issue_json issues))]\<rparr>,
              tr @ [ReadBody])))
   \<and> (requestSchema_safeParse raw = Inr b \<and>
      json_at [''destination_config'', ''options'', ''batchSize''] raw = Some v
      \<longrightarrow> (\<exists>m. v = JNum m) \<and>
          json_at [''destination_config'', ''options'', ''batchSize'']
            (json_put [''destination_config'', ''options'', ''batchSize''] (JNum n) raw)
            = Some (JNum n) \<and>
          requestSchema_safeParse
            (json_put [''destination_config'', ''options'', ''batchSize''] (JNum n) raw)
            = Inr (b\<lparr>destination_config :=
                      (destination_config b)\<lparr>dc_options :=
                         (dc_options (destination_config b))\<lparr>batchSize := n\<rparr>\<rparr>\<rparr>))
   \<and> (read_body env tr = Inr raw \<and>
      json_at [''destination_config'', ''options'', ''batchSize''] raw = Some (JNum n) \<and>
      DbInsert t row \<in> set (new_events tr (POST_sync env tr))
      \<longrightarrow> json_at [''destination_config'', ''options'', ''batchSize''] row = Some (JNum n))"
proof -
  have A: "read_body env tr = Inr raw \<and>
    json_at [''destination_config'', ''options'', ''batchSize''] raw = Some v \<and>
    (\<forall>n. v \<noteq> JNum n)
    \<longrightarrow> (\<exists>issues.
           Issue ''invalid_type'' [''destination_config'', ''options'', ''batchSize'']
             \<in> set issues \<and>
           POST_sync env tr =
             (Responded \<lparr>resp_status = 400,
                          resp_body = JObj [(''success'', JBool False),
                                            (''error'', JStr ''Validation failed''),
                                            (''details'', JArr (map issue_json issues))]\<rparr>,
              tr @ [ReadBody]))"
  proof
    assume a: "read_body env tr = Inr raw \<and>
      json_at [''destination_config'', ''options'', ''batchSize''] raw = Some v \<and>
      (\<forall>n. v \<noteq> JNum n)"
    then obtain issues where
      i: "requestSchema_safeParse raw = Inl issues"
         "Issue ''invalid_type'' [''destination_config'', ''options'', ''batchSize''] \<in> set issues"
      using non_number_batchSize_issue by blast
    from a i(1) have "POST_sync env tr =
             (Responded \<lparr>resp_status = 400,
                          resp_body = JObj [(''success'', JBool False),
                                            (''error'', JStr ''Validation failed''),
                                            (''details'', JArr (map issue_json issues))]\<rparr>,
              tr @ [ReadBody])"
      by (simp add: POST_sync_def validation_failed_def respond_def obj_literal_def)
    with i(2) show "\<exists>issues.
           Issue ''invalid_type'' [''destination_config'', ''options'', ''batchSize'']
             \<in> set issues \<and>
           POST_sync env tr =
             (Responded \<lparr>resp_status = 400,
                          resp_body = JObj [(''success'', JBool False),
                                            (''error'', JStr ''Validation failed''),
                                            (''details'', JArr (map issue_json issues))]\<rparr>,
              tr @ [ReadBody])"
      by blast
  qed
  have B: "requestSchema_safeParse raw = Inr b \<and>
      json_at [''destination_config'', ''options'', ''batchSize''] raw = Some v
      \<longrightarrow> (\<exists>m. v = JNum m) \<and>
          json_at [''destination_config'', ''options'', ''batchSize'']
            (json_put [''destination_config'', ''options'', ''batchSize''] (JNum n) raw)
            = Some (JNum n) \<and>
          requestSchema_safeParse
            (json_put [''destination_config'', ''options'', ''batchSize''] (JNum n) raw)
            = Inr (b\<lparr>destination_config :=
                      (destination_config b)\<lparr>dc_options :=
                         (dc_options (destination_config b))\<lparr>batchSize := n\<rparr>\<rparr>\<rparr>)"
    using parsed_batchSize [of raw b v] put_batchSize_valid [of raw b v n] by blast
  have C: "read_body env tr = Inr raw \<and>
      json_at [''destination_config'', ''options'', ''batchSize''] raw = Some (JNum n) \<and>
      DbInsert t row \<in> set (new_events tr (POST_sync env tr))
      \<longrightarrow> json_at [''destination_config'', ''options'', ''batchSize''] row = Some (JNum n)"
    using stored_batchSize [of env tr raw n t row] by blast
  from A B C show ?thesis by (intro conjI)
qed

theorem batch_size_must_be_number_witness:
  "read_body (sample_env (always_body (batch_body (JStr ''10''))) (Inr []) (Inr (JArr []))
                (created ''sync_1'') None) [] = Inr (batch_body (JStr ''10''))
   \<and> json_at [''destination_config'', ''options'', ''batchSize''] (batch_body (JStr ''10''))
       = Some (JStr ''10'')
   \<and> (\<forall>n. JStr ''10'' \<noteq> JNum n)
   \<and> (\<exists>issues.
         Issue ''invalid_type'' [''destination_config'', ''options'', ''batchSize'']
           \<in> set issues \<and>
         POST_sync (sample_env (always_body (batch_body (JStr ''10''))) (Inr [])
                      (Inr (JArr [])) (created ''sync_1'') None) []
           = (Responded \<lparr>resp_status = 400,
                          resp_body = JObj [(''success'', JBool False),
                                            (''error'', JStr ''Validation failed''),
                                            (''details'', JArr (map issue_json issues))]\<rparr>,
              [] @ [ReadBody]))
   \<and> requestSchema_safeParse (batch_body (JNum (Finite 0))) = Inr (batch_parsed (Finite 0))
   \<and> json_at [''destination_config'', ''options'', ''batchSize''] (batch_body (JNum (Finite 0)))
       = Some (JNum (Finite 0))
   \<and> json_put [''destination_config'', ''options'', ''batchSize''] (JNum MinusInfinity)
         (batch_body (JNum (Finite 0))) = batch_body (JNum MinusInfinity)
   \<and> requestSchema_safeParse (batch_body (JNum MinusInfinity)) = Inr (batch_parsed MinusInfinity)
   \<and> read_body (sample_env (always_body (batch_body (JNum (Finite (- 5 / 2))))) (Inr [])
                  (Inr (JArr [])) (created ''sync_1'') None) []
       = Inr (batch_body (JNum (Finite (- 5 / 2))))
   \<and> DbInsert ''syncs'' (sync_row (batch_parsed (Finite (- 5 / 2))))
       \<in> set (new_events []
                (POST_sync (sample_env (always_body (batch_body (JNum (Finite (- 5 / 2)))))
                              (Inr []) (Inr (JArr [])) (created ''sync_1'') None) []))
   \<and> json_at [''destination_config'', ''options'', ''batchSize'']
         (sync_row (batch_parsed (Finite (- 5 / 2)))) = Some (JNum (Finite (- 5 / 2)))"
proof -
  let ?P = "[''destination_config'', ''options'', ''batchSize'']"
  let ?env1 = "sample_env (always_body (batch_body (JStr ''10''))) (Inr []) (Inr (JArr []))
                 (created ''sync_1'') None"
  let ?env3 = "sample_env (always_body (batch_body (JNum (Finite (- 5 / 2))))) (Inr [])
                 (Inr (JArr [])) (created ''sync_1'') None"
  let ?row = "sync_row (batch_parsed (Finite (- 5 / 2)))"
  have 1: "read_body ?env1 [] = Inr (batch_body (JStr ''10''))" by code_simp
  have 2: "json_at ?P (batch_body (JStr ''10'')) = Some (JStr ''10'')" by code_simp
  have 3: "\<forall>n. JStr ''10'' \<noteq> JNum n" by simp
  have 4: "requestSchema_safeParse (batch_body (JNum (Finite 0))) = Inr (batch_parsed (Finite 0))"
    by code_simp
  have 5: "json_at ?P (batch_body (JNum (Finite 0))) = Some (JNum (Finite 0))" by code_simp
  have 6: "json_put ?P (JNum MinusInfinity) (batch_body (JNum (Finite 0)))
             = batch_body (JNum MinusInfinity)" by code_simp
  have 7: "(batch_parsed (Finite 0))\<lparr>destination_config :=
              (destination_config (batch_parsed (Finite 0)))\<lparr>dc_options :=
                 (dc_options (destination_config (batch_parsed (Finite 0))))
                   \<lparr>batchSize := MinusInfinity\<rparr>\<rparr>\<rparr>
           = batch_parsed MinusInfinity"
    by (simp add: batch_parsed_def sample_parsed_def)
  have 8: "read_body ?env3 [] = Inr (batch_body (JNum (Finite (- 5 / 2))))" by code_simp
  have 9: "json_at ?P (batch_body (JNum (Finite (- 5 / 2)))) = Some (JNum (Finite (- 5 / 2)))"
    by code_simp
  have 10: "DbInsert ''syncs'' ?row \<in> set (new_events [] (POST_sync ?env3 []))" by code_simp
  from batch_size_must_be_number
         [where env = ?env1 and tr = "[]" and raw = "batch_body (JStr ''10'')"
            and v = "JStr ''10''"] 1 2 3
  have a: "\<exists>issues.
         Issue ''invalid_type'' ?P \<in> set issues \<and>
         POST_sync ?env1 []
           = (Responded \<lparr>resp_status = 400,
                          resp_body = JObj [(''success'', JBool False),
                                            (''error'', JStr ''Validation failed''),
                                            (''details'', JArr (map issue_json issues))]\<rparr>,
              [] @ [ReadBody])"
    by blast
  from batch_size_must_be_number
         [where raw = "batch_body (JNum (Finite 0))" and b = "batch_parsed (Finite 0)"
            and v = "JNum (Finite 0)" and n = MinusInfinity] 4 5
  have "requestSchema_safeParse
          (json_put ?P (JNum MinusInfinity) (batch_body (JNum (Finite 0))))
        = Inr ((batch_parsed (Finite 0))\<lparr>destination_config :=
              (destination_config (batch_parsed (Finite 0)))\<lparr>dc_options :=
                 (dc_options (destination_config (batch_parsed (Finite 0))))
                   \<lparr>batchSize := MinusInfinity\<rparr>\<rparr>\<rparr>)"
    by blast
  then have b: "requestSchema_safeParse (batch_body (JNum MinusInfinity))
                  = Inr (batch_parsed MinusInfinity)"
    unfolding 6 7 .
  from batch_size_must_be_number
         [where env = ?env3 and tr = "[]" and raw = "batch_body (JNum (Finite (- 5 / 2)))"
            and n = "Finite (- 5 / 2)" and t = "''syncs''" and row = ?row] 8 9 10
  have c: "json_at ?P ?row = Some (JNum (Finite (- 5 / 2)))" by blast
  show ?thesis using 1 2 3 4 5 6 8 10 a b c by blast
qed

text \<open>
  The batch sizes 0, -5 and 5/2 pass the validation, and the request with batch size 0 is
  handed to the store and dispatched.
\<close>

theorem batch_size_zero_accepted:
  "requestSchema_safeParse (batch_body (JNum (Finite 0))) = Inr (batch_parsed (Finite 0))
   \<and> requestSchema_safeParse (batch_body (JNum (Finite (- 5)))) = Inr (batch_parsed (Finite (- 5)))
   \<and> requestSchema_safeParse (batch_body (JNum (Finite (5 / 2))))
       = Inr (batch_parsed (Finite (5 / 2)))
   \<and> batchSize (dc_options (destination_config (batch_parsed (Finite 0)))) = Finite 0
   \<and> POST_sync (sample_env (always_body (batch_body (JNum (Finite 0)))) (Inr []) (Inr (JArr []))
                  (created ''sync_1'') None) []
       = (Responded \<lparr>resp_status = 200,
                     resp_body = JObj [(''success'', JBool True), (''syncId'', JStr ''sync_1''),
                                       (''message'',
                                          JStr ''ETL process and container provisioning initiated successfully'')]\<rparr>,
          [ReadBody,
           ChQuery (client_config (internal_credentials sample_parsed)) ''SHOW TABLES'',
           ChQuery (client_config (internal_credentials sample_parsed)) ''SHOW TABLES'',
           DbInsert ''syncs'' (sync_row (batch_parsed (Finite 0))),
           GhDispatch (bulker_dispatch
                         (sample_env (always_body (batch_body (JNum (Finite 0)))) (Inr [])
                            (Inr (JArr [])) (created ''sync_1'') None) ''org_1'' [])])
   \<and> json_at [''destination_config'', ''options'', ''batchSize'']
         (sync_row (batch_parsed (Finite 0))) = Some (JNum (Finite 0))"
  by code_simp

section \<open>Where the credential shape is checked\<close>

text \<open>
  C7. The registry of required credential fields is consulted by the sources route before
  a source is stored: a source is inserted only if its type is in the registry and every
  required field is a string that is not blank; and when the required fields are strings
  or absent and one of them is absent or blank, the answer is status 400 with
  \<open>Invalid credentials for the selected type\<close> and nothing is inserted. The sync handler
  makes no such check: for every valid request whose client can be constructed, the first
  thing after reading the body is the query \<open>SHOW TABLES\<close>, sent with whatever the
  credentials hold.
\<close>

theorem shape_check_guards_sources_only:
  "(DbInsert t row \<in> set (new_events tr (POST_sources env tr))
    \<longrightarrow> (\<exists>b ty c required.
           read_body env tr = Inr b \<and> js_destructure b ''type'' = Inr ty \<and>
           js_destructure b ''credentials'' = Inr c \<and>
           (to_property_key (number_to_string env) ty, required)
             \<in> set [(''snowflake'',
                       [''account'', ''username'', ''password'', ''warehouse'', ''database'',
                        ''schema'']),
                     (''bigquery'', [''project_id'', ''private_key'', ''client_email'']),
                     (''redshift'', [''host'', ''port'', ''database'', ''user'', ''password'']),
                     (''clickhouse'', [''host'', ''port'', ''database'', ''user'', ''password''])] \<and>
           (\<forall>f\<in>set required. \<exists>s. js_get c f = Inr (Some (JStr s)) \<and> js_trim s \<noteq> [])))
   \<and> (js_truthy (auth_userId (clerk_auth env)) \<and> js_truthy (auth_orgId (clerk_auth env)) \<and>
      read_body env tr = Inr b \<and> js_destructure b ''type'' = Inr ty \<and>
      js_destructure b ''credentials'' = Inr c \<and> js_truthy ty \<and> js_truthy c \<and>
      map_of requiredFields (to_property_key (number_to_string env) ty) = Some required \<and>
      (\<forall>g\<in>set required. js_get c g = Inr None \<or> (\<exists>s. js_get c g = Inr (Some (JStr s)))) \<and>
      f \<in> set required \<and>
      (js_get c f = Inr None \<or> (\<exists>s. js_get c f = Inr (Some (JStr s)) \<and> js_trim s = []))
      \<longrightarrow> POST_sources env tr
            = (Responded \<lparr>resp_status = 400,
                          resp_body =
                            JObj [(''error'',
                                     JStr ''Invalid credentials for the selected type'')]\<rparr>,
               tr @ [ReadBody]))
   \<and> (read_body env tr = Inr raw \<and> requestSchema_safeParse raw = Inr p \<and>
      ch_client env (client_config (internal_credentials p)) = None
      \<longrightarrow> (\<exists>rest. new_events tr (POST_sync env tr)
                    = ReadBody
                      # ChQuery \<lparr>cfg_url = map_of (internal_credentials p) ''host'',
                                 cfg_host = None,
                                 cfg_username = map_of (internal_credentials p) ''username'',
                                 cfg_password = map_of (internal_credentials p) ''password'',
                                 cfg_database = map_of (internal_credentials p) ''database''\<rparr>
                          ''SHOW TABLES''
                      # rest))"
proof -
  have A: "DbInsert t row \<in> set (new_events tr (POST_sources env tr))
    \<longrightarrow> (\<exists>b ty c required.
           read_body env tr = Inr b \<and> js_destructure b ''type'' = Inr ty \<and>
           js_destructure b ''credentials'' = Inr c \<and>
           (to_property_key (number_to_string env) ty, required)
             \<in> set [(''snowflake'',
                       [''account'', ''username'', ''password'', ''warehouse'', ''database'',
                        ''schema'']),
                     (''bigquery'', [''project_id'', ''private_key'', ''client_email'']),
                     (''redshift'', [''host'', ''port'', ''database'', ''user'', ''password'']),
                     (''clickhouse'', [''host'', ''port'', ''database'', ''user'', ''password''])] \<and>
           (\<forall>f\<in>set required. \<exists>s. js_get c f = Inr (Some (JStr s)) \<and> js_trim s \<noteq> []))"
  proof
    assume "DbInsert t row \<in> set (new_events tr (POST_sources env tr))"
    from POST_sources_insert [OF this] obtain b ty c where
      1: "read_body env tr = Inr b" "js_destructure b ''type'' = Inr ty"
         "js_destructure b ''credentials'' = Inr c"
         "validateCredentials (to_property_key (number_to_string env) ty) c = Inr True"
      by blast
    from validateCredentials_True [OF 1(4)] obtain required where
      2: "map_of requiredFields (to_property_key (number_to_string env) ty) = Some required"
         "\<forall>f\<in>set required. \<exists>s. js_get c f = Inr (Some (JStr s)) \<and> js_trim s \<noteq> []"
      by blast
    from map_of_SomeD [OF 2(1)]
    have "(to_property_key (number_to_string env) ty, required)
             \<in> set [(''snowflake'',
                       [''account'', ''username'', ''password'', ''warehouse'', ''database'',
                        ''schema'']),
                     (''bigquery'', [''project_id'', ''private_key'', ''client_email'']),
                     (''redshift'', [''host'', ''port'', ''database'', ''user'', ''password'']),
                     (''clickhouse'', [''host'', ''port'', ''database'', ''user'', ''password''])]"
      by (simp only: requiredFields_def)
    with 1(1,2,3) 2(2)
    show "\<exists>b ty c required.
           read_body env tr = Inr b \<and> js_destructure b ''type'' = Inr ty \<and>
           js_destructure b ''credentials'' = Inr c \<and>
           (to_property_key (number_to_string env) ty, required)
             \<in> set [(''snowflake'',
                       [''account'', ''username'', ''password'', ''warehouse'', ''database'',
                        ''schema'']),
                     (''bigquery'', [''project_id'', ''private_key'', ''client_email'']),
                     (''redshift'', [''host'', ''port'', ''database'', ''user'', ''password'']),
                     (''clickhouse'', [''host'', ''port'', ''database'', ''user'', ''password''])] \<and>
           (\<forall>f\<in>set required. \<exists>s. js_get c f = Inr (Some (JStr s)) \<and> js_trim s \<noteq> [])"
      by blast
  qed
  have B: "js_truthy (auth_userId (clerk_auth env)) \<and> js_truthy (auth_orgId (clerk_auth env)) \<and>
      read_body env tr = Inr b \<and> js_destructure b ''type'' = Inr ty \<and>
      js_destructure b ''credentials'' = Inr c \<and> js_truthy ty \<and> js_truthy c \<and>
      map_of requiredFields (to_property_key (number_to_string env) ty) = Some required \<and>
      (\<forall>g\<in>set required. js_get c g = Inr None \<or> (\<exists>s. js_get c g = Inr (Some (JStr s)))) \<and>
      f \<in> set required \<and>
      (js_get c f = Inr None \<or> (\<exists>s. js_get c f = Inr (Some (JStr s)) \<and> js_trim s = []))
      \<longrightarrow> POST_sources env tr
            = (Responded \<lparr>resp_status = 400,
                          resp_body =
                            JObj [(''error'',
                                     JStr ''Invalid credentials for the selected type'')]\<rparr>,
               tr @ [ReadBody])"
  proof
    assume a: "js_truthy (auth_userId (clerk_auth env)) \<and> js_truthy (auth_orgId (clerk_auth env)) \<and>
      read_body env tr = Inr b \<and> js_destructure b ''type'' = Inr ty \<and>
      js_destructure b ''credentials'' = Inr c \<and> js_truthy ty \<and> js_truthy c \<and>
      map_of requiredFields (to_property_key (number_to_string env) ty) = Some required \<and>
      (\<forall>g\<in>set required. js_get c g = Inr None \<or> (\<exists>s. js_get c g = Inr (Some (JStr s)))) \<and>
      f \<in> set required \<and>
      (js_get c f = Inr None \<or> (\<exists>s. js_get c f = Inr (Some (JStr s)) \<and> js_trim s = []))"
    let ?key = "to_property_key (number_to_string env) ty"
    from a obtain ok where ok: "every_field c required = Inr ok"
      using every_field_strings [of required c] by blast
    have "ok = False"
    proof (rule ccontr)
      assume "ok \<noteq> False"
      with ok have "every_field c required = Inr True" by simp
      from every_field_True [OF this] a show False by auto
    qed
    with ok a have "validateCredentials ?key c = Inr False"
      by (simp add: validateCredentials_def)
    with a show "POST_sources env tr
            = (Responded \<lparr>resp_status = 400,
                          resp_body =
                            JObj [(''error'',
                                     JStr ''Invalid credentials for the selected type'')]\<rparr>,
               tr @ [ReadBody])"
      by (simp add: POST_sources_def source_error_def respond_def obj_literal_def)
  qed
  have C: "read_body env tr = Inr raw \<and> requestSchema_safeParse raw = Inr p \<and>
      ch_client env (client_config (internal_credentials p)) = None
      \<longrightarrow> (\<exists>rest. new_events tr (POST_sync env tr)
                    = ReadBody
                      # ChQuery \<lparr>cfg_url = map_of (internal_credentials p) ''host'',
                                 cfg_host = None,
                                 cfg_username = map_of (internal_credentials p) ''username'',
                                 cfg_password = map_of (internal_credentials p) ''password'',
                                 cfg_database = map_of (internal_credentials p) ''database''\<rparr>
                          ''SHOW TABLES''
                      # rest)"
  proof
    assume a: "read_body env tr = Inr raw \<and> requestSchema_safeParse raw = Inr p \<and>
      ch_client env (client_config (internal_credentials p)) = None"
    then obtain rest where
      r: "snd (POST_sync env tr)
            = snd (getTableData env (internal_credentials p) (tr @ [ReadBody])) @ rest"
      using POST_sync_after_extraction by blast
    from a obtain evs where
      e: "snd (getTableData env (internal_credentials p) (tr @ [ReadBody]))
            = (tr @ [ReadBody])
              @ ChQuery (client_config (internal_credentials p)) ''SHOW TABLES'' # evs"
      using getTableData_first_query by blast
    from r e have "new_events tr (POST_sync env tr)
            = ReadBody # ChQuery (client_config (internal_credentials p)) ''SHOW TABLES''
              # (evs @ rest)"
      by (simp add: new_events_def)
    then show "\<exists>rest. new_events tr (POST_sync env tr)
                    = ReadBody
                      # ChQuery \<lparr>cfg_url = map_of (internal_credentials p) ''host'',
                                 cfg_host = None,
                                 cfg_username = map_of (internal_credentials p) ''username'',
                                 cfg_password = map_of (internal_credentials p) ''password'',
                                 cfg_database = map_of (internal_credentials p) ''database''\<rparr>
                          ''SHOW TABLES''
                      # rest"
      by (simp add: client_config_def)
  qed
  from A B C show ?thesis by (intro conjI)
qed

theorem shape_check_guards_sources_only_witness:
  "DbInsert ''sources''
      (source_row (sample_env (always_body source_body) refused (Inr (JArr []))
                     (created ''src_1'') None)
         (Some (JStr ''clickhouse'')) (json_at [''credentials''] source_body))
     \<in> set (new_events []
              (POST_sources (sample_env (always_body source_body) refused (Inr (JArr []))
                               (created ''src_1'') None) []))
   \<and> (\<exists>b ty c required.
         read_body (sample_env (always_body source_body) refused (Inr (JArr []))
                      (created ''src_1'') None) [] = Inr b \<and>
         js_destructure b ''type'' = Inr ty \<and> js_destructure b ''credentials'' = Inr c \<and>
         (to_property_key (\<lambda>n. ''0'') ty, required)
           \<in> set [(''snowflake'',
                     [''account'', ''username'', ''password'', ''warehouse'', ''database'',
                      ''schema'']),
                   (''bigquery'', [''project_id'', ''private_key'', ''client_email'']),
                   (''redshift'', [''host'', ''port'', ''database'', ''user'', ''password'']),
                   (''clickhouse'', [''host'', ''port'', ''database'', ''user'', ''password''])] \<and>
         (\<forall>f\<in>set required. \<exists>s. js_get c f = Inr (Some (JStr s)) \<and> js_trim s \<noteq> []))
   \<and> js_get (json_at [''credentials''] incomplete_source_body) ''port'' = Inr None
   \<and> POST_sources (sample_env (always_body incomplete_source_body) refused (Inr (JArr []))
                     (created ''src_1'') None) []
       = (Responded \<lparr>resp_status = 400,
                     resp_body =
                       JObj [(''error'', JStr ''Invalid credentials for the selected type'')]\<rparr>,
          [ReadBody])
   \<and> js_get (json_at [''credentials''] blank_source_body) ''host''
       = Inr (Some (JStr [CHR 0xC2, CHR 0xA0]))
   \<and> js_trim [CHR 0xC2, CHR 0xA0] = []
   \<and> POST_sources (sample_env (always_body blank_source_body) refused (Inr (JArr []))
                     (created ''src_1'') None) []
       = (Responded \<lparr>resp_status = 400,
                     resp_body =
                       JObj [(''error'', JStr ''Invalid credentials for the selected type'')]\<rparr>,
          [ReadBody])
   \<and> read_body (sample_env (always_body (sample_request (JObj []) (JObj sample_destination)))
                  refused (Inr (JArr [])) (created ''sync_1'') None) []
       = Inr (sample_request (JObj []) (JObj sample_destination))
   \<and> requestSchema_safeParse (sample_request (JObj []) (JObj sample_destination))
       = Inr (sample_parsed\<lparr>internal_credentials := []\<rparr>)
   \<and> validateCredentials ''clickhouse'' (Some (JObj [])) = Inr False
   \<and> (\<exists>rest. new_events []
                (POST_sync (sample_env (always_body (sample_request (JObj [])
                                                       (JObj sample_destination)))
                              refused (Inr (JArr [])) (created ''sync_1'') None) [])
              = ReadBody # ChQuery no_config ''SHOW TABLES'' # rest)"
proof -
  let ?env = "sample_env (always_body source_body) refused (Inr (JArr [])) (created ''src_1'') None"
  let ?env2 = "sample_env (always_body incomplete_source_body) refused (Inr (JArr []))
                 (created ''src_1'') None"
  let ?env3 = "sample_env (always_body blank_source_body) refused (Inr (JArr []))
                 (created ''src_1'') None"
  let ?raw4 = "sample_request (JObj []) (JObj sample_destination)"
  let ?env4 = "sample_env (always_body ?raw4) refused (Inr (JArr [])) (created ''sync_1'') None"
  let ?c = "json_at [''credentials''] source_body"
  let ?c2 = "json_at [''credentials''] incomplete_source_body"
  let ?c3 = "json_at [''credentials''] blank_source_body"
  let ?row = "source_row ?env (Some (JStr ''clickhouse'')) ?c"
  let ?req = "[''host'', ''port'', ''database'', ''user'', ''password'']"
  have 1: "DbInsert ''sources'' ?row \<in> set (new_events [] (POST_sources ?env []))"
    by code_simp
  have n: "number_to_string ?env = (\<lambda>n. ''0'')" by (simp add: sample_env_def)
  from shape_check_guards_sources_only
         [where env = ?env and tr = "[]" and t = "''sources''" and row = ?row] 1
  have 2: "\<exists>b ty c required.
             read_body ?env [] = Inr b \<and>
             js_destructure b ''type'' = Inr ty \<and> js_destructure b ''credentials'' = Inr c \<and>
             (to_property_key (\<lambda>n. ''0'') ty, required)
               \<in> set [(''snowflake'',
                         [''account'', ''username'', ''password'', ''warehouse'', ''database'',
                          ''schema'']),
                       (''bigquery'', [''project_id'', ''private_key'', ''client_email'']),
                       (''redshift'', [''host'', ''port'', ''database'', ''user'', ''password'']),
                       (''clickhouse'', [''host'', ''port'', ''database'', ''user'', ''password''])] \<and>
             (\<forall>f\<in>set required. \<exists>s. js_get c f = Inr (Some (JStr s)) \<and> js_trim s \<noteq> [])"
    unfolding n by blast
  have 3: "js_truthy (auth_userId (clerk_auth ?env2)) \<and> js_truthy (auth_orgId (clerk_auth ?env2))
           \<and> read_body ?env2 [] = Inr incomplete_source_body
           \<and> js_destructure incomplete_source_body ''type'' = Inr (Some (JStr ''clickhouse''))
           \<and> js_destructure incomplete_source_body ''credentials'' = Inr ?c2
           \<and> js_truthy (Some (JStr ''clickhouse'')) \<and> js_truthy ?c2
           \<and> map_of requiredFields
                (to_property_key (number_to_string ?env2) (Some (JStr ''clickhouse''))) = Some ?req"
    by code_simp
  have h3a: "\<forall>g\<in>set ?req. js_get ?c2 g = Inr None \<or> (\<exists>s. js_get ?c2 g = Inr (Some (JStr s)))"
    by (simp add: incomplete_source_body_def)
  have h3b: "''port'' \<in> set ?req" by simp
  have h3c: "js_get ?c2 ''port'' = Inr None" by code_simp
  from shape_check_guards_sources_only
         [where env = ?env2 and tr = "[]" and b = incomplete_source_body
            and ty = "Some (JStr ''clickhouse'')" and c = ?c2 and required = ?req
            and f = "''port''"] 3 h3a h3b h3c
  have 4: "POST_sources ?env2 []
             = (Responded \<lparr>resp_status = 400,
                           resp_body =
                             JObj [(''error'',
                                      JStr ''Invalid credentials for the selected type'')]\<rparr>,
                [ReadBody])"
    by simp
  have 5: "js_truthy (auth_userId (clerk_auth ?env3)) \<and> js_truthy (auth_orgId (clerk_auth ?env3))
           \<and> read_body ?env3 [] = Inr blank_source_body
           \<and> js_destructure blank_source_body ''type'' = Inr (Some (JStr ''clickhouse''))
           \<and> js_destructure blank_source_body ''credentials'' = Inr ?c3
           \<and> js_truthy (Some (JStr ''clickhouse'')) \<and> js_truthy ?c3
           \<and> map_of requiredFields
                (to_property_key (number_to_string ?env3) (Some (JStr ''clickhouse''))) = Some ?req"
    by code_simp
  have h5a: "\<forall>g\<in>set ?req. js_get ?c3 g = Inr None \<or> (\<exists>s. js_get ?c3 g = Inr (Some (JStr s)))"
    by (simp add: blank_source_body_def)
  have h5b: "''host'' \<in> set ?req" by simp
  have h5c: "js_get ?c3 ''host'' = Inr (Some (JStr [CHR 0xC2, CHR 0xA0]))" by code_simp
  have h5d: "js_trim [CHR 0xC2, CHR 0xA0] = []" by code_simp
  from h5c h5d have h5e: "js_get ?c3 ''host'' = Inr None
                       \<or> (\<exists>s. js_get ?c3 ''host'' = Inr (Some (JStr s)) \<and> js_trim s = [])"
    by blast
  from shape_check_guards_sources_only
         [where env = ?env3 and tr = "[]" and b = blank_source_body
            and ty = "Some (JStr ''clickhouse'')" and c = ?c3 and required = ?req
            and f = "''host''"] 5 h5a h5b h5e
  have 6: "POST_sources ?env3 []
             = (Responded \<lparr>resp_status = 400,
                           resp_body =
                             JObj [(''error'',
                                      JStr ''Invalid credentials for the selected type'')]\<rparr>,
                [ReadBody])"
    by simp
  have 7: "read_body ?env4 [] = Inr ?raw4" by code_simp
  have 8: "requestSchema_safeParse ?raw4 = Inr (sample_parsed\<lparr>internal_credentials := []\<rparr>)"
    by code_simp
  have 9: "ch_client ?env4
             (client_config (internal_credentials (sample_parsed\<lparr>internal_credentials := []\<rparr>)))
           = None"
    by (simp add: sample_env_def)
  have 10: "validateCredentials ''clickhouse'' (Some (JObj [])) = Inr False" by code_simp
  from shape_check_guards_sources_only
         [where env = ?env4 and tr = "[]" and raw = ?raw4
            and p = "sample_parsed\<lparr>internal_credentials := []\<rparr>"] 7 8 9
  have 11: "\<exists>rest. new_events [] (POST_sync ?env4 [])
              = ReadBody # ChQuery no_config ''SHOW TABLES'' # rest"
    by (simp add: no_config_def)
  show ?thesis using 1 2 h3c 4 h5c h5d 6 7 8 10 11 by blast
qed

text \<open>
  The first sync handler with empty source credentials: the query is sent with a client
  configured with nothing, and the answer carries the connection error of the source.
\<close>

theorem sync_queries_without_shape_check:
  "POST_sync (sample_env (always_body (sample_request (JObj []) (JObj sample_destination)))
                refused (Inr (JArr [])) (created ''sync_1'') None) []
     = (Responded \<lparr>resp_status = 500,
                   resp_body = JObj [(''success'', JBool False), (''syncId'', JNull),
                                     (''error'', JStr ''connect ECONNREFUSED'')]\<rparr>,
        [ReadBody, ChQuery no_config ''SHOW TABLES''])"
  by code_simp

section \<open>A source without tables\<close>

text \<open>
  C8. For a valid request whose source lists no tables, the first sync handler does not
  fail: the snapshot is the empty object, the row is handed to the store, and when the
  store returns the created row the workflow dispatch is attempted with the serialised
  empty snapshot; when the dispatch is accepted the answer has status 200,
  \<open>success: true\<close> and the id of the row as \<open>syncId\<close>.
\<close>

theorem zero_tables_proceeds:
  assumes "read_body env tr = Inr raw"
    and "requestSchema_safeParse raw = Inr b"
    and "ch_client env (client_config (internal_credentials b)) = None"
    and "\<forall>tr'. ch_show_tables env tr' (client_config (internal_credentials b)) = Inr []"
  shows "let cfg = \<lparr>cfg_url = map_of (internal_credentials b) ''host'', cfg_host = None,
                    cfg_username = map_of (internal_credentials b) ''username'',
                    cfg_password = map_of (internal_credentials b) ''password'',
                    cfg_database = map_of (internal_credentials b) ''database''\<rparr>;
             listing = ChQuery cfg ''SHOW TABLES'';
             row = JObj [(''organization'', JStr (organization b)),
                         (''internal_warehouse'', JStr (internal_warehouse b)),
                         (''link_type'', JStr (toLowerCase (link_type b))),
                         (''internal_credentials'', JObj (internal_credentials b)),
                         (''destination_config'',
                            JObj [(''type'', JStr (dc_type (destination_config b))),
                                  (''credentials'', JObj (dc_credentials (destination_config b))),
                                  (''options'',
                                     JObj [(''mode'',
                                              JStr (mode (dc_options (destination_config b)))),
                                           (''batchSize'',
                                              JNum (batchSize
                                                      (dc_options (destination_config b))))])])];
             req = \<lparr>gh_owner = ''portcullis-co'', gh_repo = ''portcullis-app'',
                    gh_workflow_id = ''deploy-bulker.yml'', gh_ref = ''bulker'',
                    inputs_org_id = organization b,
                    inputs_data = json_stringify env (JObj [])\<rparr>
         in getTableData env (internal_credentials b) (tr @ [ReadBody])
              = (Inr [], tr @ [ReadBody, listing])
          \<and> (\<exists>rest. snd (POST_sync env tr)
                       = tr @ [ReadBody, listing, listing, DbInsert ''syncs'' row] @ rest)
          \<and> (\<forall>syncData.
                db_insert env (tr @ [ReadBody, listing, listing]) ''syncs'' row
                  = Inr \<lparr>db_error = None, db_data = Some syncData\<rparr>
                \<longrightarrow> snd (POST_sync env tr)
                      = tr @ [ReadBody, listing, listing, DbInsert ''syncs'' row, GhDispatch req]
                  \<and> (\<forall>ident.
                        gh_dispatch env
                          (tr @ [ReadBody, listing, listing, DbInsert ''syncs'' row]) req = None
                        \<and> map_of syncData ''id'' = Some ident
                        \<longrightarrow> fst (POST_sync env tr)
                              = Responded
                                  \<lparr>resp_status = 200,
                                   resp_body =
                                     JObj [(''success'', JBool True), (''syncId'', ident),
                                           (''message'',
                                              JStr ''ETL process and container provisioning initiated successfully'')]\<rparr>))"
proof -
  let ?cfg = "client_config (internal_credentials b)"
  have g1: "getTableData env (internal_credentials b) (tr @ [ReadBody])
              = (Inr [], tr @ [ReadBody, ChQuery ?cfg ''SHOW TABLES''])"
    using assms(3,4) by (simp add: getTableData_def getAllTables_def Let_def)
  have g2: "getAllTables env (internal_credentials b) (tr @ [ReadBody, ChQuery ?cfg ''SHOW TABLES''])
              = (Inr [], tr @ [ReadBody, ChQuery ?cfg ''SHOW TABLES'', ChQuery ?cfg ''SHOW TABLES''])"
    using assms(3,4) by (simp add: getAllTables_def Let_def)
  have cfg: "?cfg = \<lparr>cfg_url = map_of (internal_credentials b) ''host'', cfg_host = None,
                    cfg_username = map_of (internal_credentials b) ''username'',
                    cfg_password = map_of (internal_credentials b) ''password'',
                    cfg_database = map_of (internal_credentials b) ''database''\<rparr>"
    by (simp add: client_config_def)
  show ?thesis
    using assms(1,2) g1 g2 unfolding cfg
    by (auto simp add: POST_sync_def Let_def sync_row_def destination_config_json_def
                       options_json_def bulker_dispatch_def initiated_def respond_def
                       obj_literal_def
             split: sum.splits option.splits)
qed

theorem zero_tables_proceeds_witness:
  "read_body (sample_env (always_body sample_body) (Inr []) (Inr (JArr []))
                (created ''sync_1'') None) [] = Inr sample_body
   \<and> requestSchema_safeParse sample_body = Inr sample_parsed
   \<and> ch_client (sample_env (always_body sample_body) (Inr []) (Inr (JArr []))
                  (created ''sync_1'') None)
        (client_config (internal_credentials sample_parsed)) = None
   \<and> (\<forall>tr'. ch_show_tables (sample_env (always_body sample_body) (Inr []) (Inr (JArr []))
                               (created ''sync_1'') None) tr'
               (client_config (internal_credentials sample_parsed)) = Inr [])
   \<and> db_insert (sample_env (always_body sample_body) (Inr []) (Inr (JArr []))
                  (created ''sync_1'') None)
        [ReadBody,
         ChQuery (client_config (internal_credentials sample_parsed)) ''SHOW TABLES'',
         ChQuery (client_config (internal_credentials sample_parsed)) ''SHOW TABLES'']
        ''syncs'' (sync_row sample_parsed)
       = Inr \<lparr>db_error = None, db_data = Some [(''id'', JStr ''sync_1'')]\<rparr>
   \<and> gh_dispatch (sample_env (always_body sample_body) (Inr []) (Inr (JArr []))
                    (created ''sync_1'') None)
        [ReadBody,
         ChQuery (client_config (internal_credentials sample_parsed)) ''SHOW TABLES'',
         ChQuery (client_config (internal_credentials sample_parsed)) ''SHOW TABLES'',
         DbInsert ''syncs'' (sync_row sample_parsed)]
        \<lparr>gh_owner = ''portcullis-co'', gh_repo = ''portcullis-app'',
         gh_workflow_id = ''deploy-bulker.yml'', gh_ref = ''bulker'',
         inputs_org_id = ''org_1'', inputs_data = ''{}''\<rparr> = None
   \<and> map_of [(''id'', JStr ''sync_1'')] ''id'' = Some (JStr ''sync_1'')
   \<and> POST_sync (sample_env (always_body sample_body) (Inr []) (Inr (JArr []))
                  (created ''sync_1'') None) []
       = (Responded
            \<lparr>resp_status = 200,
             resp_body = JObj [(''success'', JBool True), (''syncId'', JStr ''sync_1''),
                               (''message'',
                                  JStr ''ETL process and container provisioning initiated successfully'')]\<rparr>,
          [ReadBody,
           ChQuery (client_config (internal_credentials sample_parsed)) ''SHOW TABLES'',
           ChQuery (client_config (internal_credentials sample_parsed)) ''SHOW TABLES'',
           DbInsert ''syncs'' (sync_row sample_parsed),
           GhDispatch \<lparr>gh_owner = ''portcullis-co'', gh_repo = ''portcullis-app'',
                       gh_workflow_id = ''deploy-bulker.yml'', gh_ref = ''bulker'',
                       inputs_org_id = ''org_1'', inputs_data = ''{}''\<rparr>])"
proof -
  let ?env = "sample_env (always_body sample_body) (Inr []) (Inr (JArr []))
                (created ''sync_1'') None"
  let ?cfg = "client_config (internal_credentials sample_parsed)"
  let ?l = "ChQuery ?cfg ''SHOW TABLES''"
  let ?row = "sync_row sample_parsed"
  let ?req = "\<lparr>gh_owner = ''portcullis-co'', gh_repo = ''portcullis-app'',
                gh_workflow_id = ''deploy-bulker.yml'', gh_ref = ''bulker'',
                inputs_org_id = ''org_1'', inputs_data = ''{}''\<rparr>"
  have 1: "read_body ?env [] = Inr sample_body" by code_simp
  have 2: "requestSchema_safeParse sample_body = Inr sample_parsed" by code_simp
  have 3: "ch_client ?env ?cfg = None" by (simp add: sample_env_def)
  have 4: "\<forall>tr'. ch_show_tables ?env tr' ?cfg = Inr []" by (simp add: sample_env_def)
  have 5: "db_insert ?env [ReadBody, ?l, ?l] ''syncs'' ?row
             = Inr \<lparr>db_error = None, db_data = Some [(''id'', JStr ''sync_1'')]\<rparr>"
    by (simp add: sample_env_def created_def)
  have 6: "gh_dispatch ?env [ReadBody, ?l, ?l, DbInsert ''syncs'' ?row] ?req = None"
    by (simp add: sample_env_def)
  have 7: "map_of [(''id'', JStr ''sync_1'')] ''id'' = Some (JStr ''sync_1'')" by simp
  have c: "?cfg = \<lparr>cfg_url = map_of (internal_credentials sample_parsed) ''host'',
                   cfg_host = None,
                   cfg_username = map_of (internal_credentials sample_parsed) ''username'',
                   cfg_password = map_of (internal_credentials sample_parsed) ''password'',
                   cfg_database = map_of (internal_credentials sample_parsed) ''database''\<rparr>"
    by (simp add: client_config_def)
  have r: "?row = JObj [(''organization'', JStr (organization sample_parsed)),
                         (''internal_warehouse'', JStr (internal_warehouse sample_parsed)),
                         (''link_type'', JStr (toLowerCase (link_type sample_parsed))),
                         (''internal_credentials'', JObj (internal_credentials sample_parsed)),
                         (''destination_config'',
                            JObj [(''type'', JStr (dc_type (destination_config sample_parsed))),
                                  (''credentials'',
                                     JObj (dc_credentials (destination_config sample_parsed))),
                                  (''options'',
                                     JObj [(''mode'',
                                              JStr (mode (dc_options
                                                            (destination_config sample_parsed)))),
                                           (''batchSize'',
                                              JNum (batchSize
                                                      (dc_options
                                                         (destination_config sample_parsed))))])])]"
    by (simp add: sync_row_def destination_config_json_def options_json_def)
  have q: "?req = \<lparr>gh_owner = ''portcullis-co'', gh_repo = ''portcullis-app'',
                    gh_workflow_id = ''deploy-bulker.yml'', gh_ref = ''bulker'',
                    inputs_org_id = organization sample_parsed,
                    inputs_data = json_stringify ?env (JObj [])\<rparr>"
    by (simp add: sample_parsed_def sample_env_def)
  note t = zero_tables_proceeds [OF 1 2 3 4, unfolded Let_def, folded c r q, simplified]
  from t 5 have s: "snd (POST_sync ?env []) = [ReadBody, ?l, ?l, DbInsert ''syncs'' ?row, GhDispatch ?req]"
    by blast
  from t 5 6 7 have f: "fst (POST_sync ?env [])
          = Responded
              \<lparr>resp_status = 200,
               resp_body = JObj [(''success'', JBool True), (''syncId'', JStr ''sync_1''),
                                 (''message'',
                                    JStr ''ETL process and container provisioning initiated successfully'')]\<rparr>"
    by blast
  from s f have "POST_sync ?env []
       = (Responded
            \<lparr>resp_status = 200,
             resp_body = JObj [(''success'', JBool True), (''syncId'', JStr ''sync_1''),
                               (''message'',
                                  JStr ''ETL process and container provisioning initiated successfully'')]\<rparr>,
          [ReadBody, ?l, ?l, DbInsert ''syncs'' ?row, GhDispatch ?req])"
    by (simp add: prod_eq_iff)
  with 1 2 3 4 5 6 7 show ?thesis by blast
qed

section \<open>An insert that returns no row\<close>

text \<open>
  C9. When the insert of the first sync handler reports no error and returns no row, the
  answer has status 500 and the body \<open>{success: false, error: "Failed to create sync
  record: No data returned"}\<close>, which has no \<open>syncId\<close>.
\<close>

theorem insert_without_row:
  assumes "DbInsert t row \<in> set (new_events tr (POST_sync env tr))"
    and "\<forall>tr'. db_insert env tr' t row = Inr \<lparr>db_error = None, db_data = None\<rparr>"
  shows "\<exists>resp. fst (POST_sync env tr) = Responded resp \<and> resp_status resp = 500 \<and>
           resp_body resp =
             JObj [(''success'', JBool False),
                   (''error'', JStr ''Failed to create sync record: No data returned'')] \<and>
           json_at [''syncId''] (resp_body resp) = None"
proof -
  obtain raw b snapshot tr1 tables tr2 where
    "read_body env tr = Inr raw" "requestSchema_safeParse raw = Inr b"
    "getTableData env (internal_credentials b) (tr @ [ReadBody]) = (Inr snapshot, tr1)"
    "getAllTables env (internal_credentials b) tr1 = (Inr tables, tr2)"
    "t = ''syncs''" "row = sync_row b"
    using POST_sync_insert [OF assms(1)] by blast
  moreover from assms(2) \<open>t = ''syncs''\<close> \<open>row = sync_row b\<close>
  have "db_insert env tr2 ''syncs'' (sync_row b) = Inr \<lparr>db_error = None, db_data = None\<rparr>"
    by simp
  ultimately have "fst (POST_sync env tr) = no_data_returned"
    by (simp add: POST_sync_def)
  then show ?thesis
    by (simp add: no_data_returned_def respond_def obj_literal_def)
qed

theorem insert_without_row_witness:
  "DbInsert ''syncs'' (sync_row sample_parsed)
     \<in> set (new_events []
              (POST_sync (sample_env (always_body sample_body) (Inr []) (Inr (JArr []))
                            (Inr \<lparr>db_error = None, db_data = None\<rparr>) None) []))
   \<and> (\<exists>resp. fst (POST_sync (sample_env (always_body sample_body) (Inr []) (Inr (JArr []))
                                (Inr \<lparr>db_error = None, db_data = None\<rparr>) None) [])
                = Responded resp \<and> resp_status resp = 500 \<and>
           resp_body resp =
             JObj [(''success'', JBool False),
                   (''error'', JStr ''Failed to create sync record: No data returned'')] \<and>
           json_at [''syncId''] (resp_body resp) = None)"
proof -
  let ?env = "sample_env (always_body sample_body) (Inr []) (Inr (JArr []))
                (Inr \<lparr>db_error = None, db_data = None\<rparr>) None"
  have 1: "DbInsert ''syncs'' (sync_row sample_parsed) \<in> set (new_events [] (POST_sync ?env []))"
    by code_simp
  have 2: "\<forall>tr'. db_insert ?env tr' ''syncs'' (sync_row sample_parsed)
             = Inr \<lparr>db_error = None, db_data = None\<rparr>"
    by (simp add: sample_env_def)
  show ?thesis using 1 insert_without_row [OF 1 2] by blast
qed

section \<open>The dispatched snapshot\<close>

text \<open>
  C10. Whenever the first sync handler attempts the dispatch, the \<open>data\<close> input of the
  dispatch is \<open>JSON.stringify\<close> of the object that \<open>getTableData\<close> returned for the
  validated \<open>internal_credentials\<close>; and the list that the handler's second call of
  \<open>getAllTables\<close> returns has no effect: answering that \<open>SHOW TABLES\<close> with any other
  list leaves the response and all events, the stored row among them, unchanged.
\<close>

theorem dispatch_payload_is_snapshot:
  assumes "GhDispatch req \<in> set (new_events tr (POST_sync env tr))"
  shows "\<exists>raw b snapshot tr1.
           read_body env tr = Inr raw \<and> requestSchema_safeParse raw = Inr b \<and>
           getTableData env (internal_credentials b) (tr @ [ReadBody]) = (Inr snapshot, tr1) \<and>
           inputs_data req = json_stringify env (JObj snapshot) \<and>
           (\<forall>tables'.
              POST_sync (env\<lparr>ch_show_tables := (ch_show_tables env)(tr1 := (\<lambda>cfg. Inr tables'))\<rparr>) tr
                = POST_sync env tr)"
proof -
  obtain raw b snapshot tr1 tables tr2 where
    raw: "read_body env tr = Inr raw" and b: "requestSchema_safeParse raw = Inr b"
    and g1: "getTableData env (internal_credentials b) (tr @ [ReadBody]) = (Inr snapshot, tr1)"
    and g2: "getAllTables env (internal_credentials b) tr1 = (Inr tables, tr2)"
    and req: "req = bulker_dispatch env (organization b) snapshot"
    using POST_sync_dispatch [OF assms] by blast
  have "POST_sync (env\<lparr>ch_show_tables := (ch_show_tables env)(tr1 := (\<lambda>cfg. Inr tables'))\<rparr>) tr
          = POST_sync env tr" for tables'
  proof -
    let ?f = "(ch_show_tables env)(tr1 := (\<lambda>cfg. Inr tables'))"
    let ?env = "env\<lparr>ch_show_tables := ?f\<rparr>"
    from getTableData_longer [OF g1] have "tr @ [ReadBody] \<noteq> tr1" by auto
    then have "?f (tr @ [ReadBody]) = ch_show_tables env (tr @ [ReadBody])" by simp
    then have "getTableData ?env (internal_credentials b) (tr @ [ReadBody])
                 = getTableData env (internal_credentials b) (tr @ [ReadBody])"
      by (rule getTableData_show_tables [of ?f "tr @ [ReadBody]" env "internal_credentials b"])
    then have g1': "getTableData ?env (internal_credentials b) (tr @ [ReadBody]) = (Inr snapshot, tr1)"
      using g1 by simp
    from g2 have c: "ch_client env (client_config (internal_credentials b)) = None"
      and tr2: "tr2 = tr1 @ [ChQuery (client_config (internal_credentials b)) ''SHOW TABLES'']"
      by (auto simp add: getAllTables_def Let_def split: option.splits)
    from c have g2': "getAllTables ?env (internal_credentials b) tr1 = (Inr tables', tr2)"
      by (simp add: getAllTables_def Let_def tr2)
    show ?thesis
      using raw b g1 g1' g2 g2'
      by (simp add: POST_sync_def bulker_dispatch_def Let_def
               split: sum.splits option.splits)
  qed
  with raw b g1 req show ?thesis
    by (auto simp add: bulker_dispatch_def)
qed

theorem dispatch_payload_is_snapshot_witness:
  "GhDispatch (bulker_dispatch (sample_env (always_body sample_body) (Inr [''events''])
                   (Inr (JArr [])) (created ''sync_1'') None) ''org_1'' [(''events'', JArr [])])
     \<in> set (new_events []
              (POST_sync (sample_env (always_body sample_body) (Inr [''events''])
                            (Inr (JArr [])) (created ''sync_1'') None) []))
   \<and> (\<exists>raw b snapshot tr1.
         read_body (sample_env (always_body sample_body) (Inr [''events''])
                      (Inr (JArr [])) (created ''sync_1'') None) [] = Inr raw \<and>
         requestSchema_safeParse raw = Inr b \<and>
         getTableData (sample_env (always_body sample_body) (Inr [''events''])
                         (Inr (JArr [])) (created ''sync_1'') None)
           (internal_credentials b) ([] @ [ReadBody]) = (Inr snapshot, tr1) \<and>
         inputs_data (bulker_dispatch (sample_env (always_body sample_body) (Inr [''events''])
                   (Inr (JArr [])) (created ''sync_1'') None) ''org_1'' [(''events'', JArr [])])
           = sample_stringify (JObj snapshot))"
proof -
  let ?env = "sample_env (always_body sample_body) (Inr [''events'']) (Inr (JArr []))
                (created ''sync_1'') None"
  let ?req = "bulker_dispatch ?env ''org_1'' [(''events'', JArr [])]"
  have 1: "GhDispatch ?req \<in> set (new_events [] (POST_sync ?env []))" by code_simp
  have 2: "json_stringify ?env = sample_stringify" by (simp add: sample_env_def)
  from dispatch_payload_is_snapshot [OF 1] obtain raw b snapshot tr1 where
    "read_body ?env [] = Inr raw" "requestSchema_safeParse raw = Inr b"
    "getTableData ?env (internal_credentials b) ([] @ [ReadBody]) = (Inr snapshot, tr1)"
    "inputs_data ?req = json_stringify ?env (JObj snapshot)"
    by blast
  with 1 2 show ?thesis by metis
qed

end
